theory Spec2Isabelle
  imports Complex_Main
begin

section \<open>JavaScript numbers\<close>

text \<open>
  The animation engine of \<^verbatim>\<open>web/app.js\<close> computes with JavaScript numbers. A finite
  number is modelled as an exact real (no rounding, no signed zero: the only zero is
  \<open>+0\<close>); the three special values the code can produce, \<open>Infinity\<close>,
  \<open>-Infinity\<close> and \<open>NaN\<close>, are kept, with the arithmetic ECMAScript gives them.
  \<open>calculateExitPoint\<close> starts its search from \<open>Infinity\<close>, and a division by
  zero gives an infinity or \<open>NaN\<close> instead of raising.
\<close>

datatype jsnum = Num real | PosInf | NegInf | NaN

fun isFinite :: "jsnum \<Rightarrow> bool" where
  "isFinite (Num a) = True"
| "isFinite PosInf = False"
| "isFinite NegInf = False"
| "isFinite NaN = False"

fun jneg :: "jsnum \<Rightarrow> jsnum" where
  "jneg (Num a) = Num (- a)"
| "jneg PosInf = NegInf"
| "jneg NegInf = PosInf"
| "jneg NaN = NaN"

fun jadd :: "jsnum \<Rightarrow> jsnum \<Rightarrow> jsnum" where
  "jadd (Num a) (Num b) = Num (a + b)"
| "jadd NaN y = NaN"
| "jadd x NaN = NaN"
| "jadd PosInf NegInf = NaN"
| "jadd NegInf PosInf = NaN"
| "jadd PosInf y = PosInf"
| "jadd x PosInf = PosInf"
| "jadd NegInf y = NegInf"
| "jadd x NegInf = NegInf"

text \<open>The infinity with the sign of \<open>a\<close> when \<open>pos\<close>, of \<open>- a\<close> otherwise;
  \<open>0 * Infinity\<close> is \<open>NaN\<close>.\<close>

definition signedInf :: "bool \<Rightarrow> real \<Rightarrow> jsnum" where
  "signedInf pos a =
     (if a = 0 then NaN else if (0 < a) = pos then PosInf else NegInf)"

fun jmul :: "jsnum \<Rightarrow> jsnum \<Rightarrow> jsnum" where
  "jmul (Num a) (Num b) = Num (a * b)"
| "jmul NaN y = NaN"
| "jmul x NaN = NaN"
| "jmul (Num a) PosInf = signedInf True a"
| "jmul (Num a) NegInf = signedInf False a"
| "jmul PosInf (Num b) = signedInf True b"
| "jmul NegInf (Num b) = signedInf False b"
| "jmul PosInf PosInf = PosInf"
| "jmul PosInf NegInf = NegInf"
| "jmul NegInf PosInf = NegInf"
| "jmul NegInf NegInf = PosInf"

fun jdiv :: "jsnum \<Rightarrow> jsnum \<Rightarrow> jsnum" where
  "jdiv (Num a) (Num b) = (if b = 0 then signedInf True a else Num (a / b))"
| "jdiv NaN y = NaN"
| "jdiv x NaN = NaN"
| "jdiv (Num a) PosInf = Num 0"
| "jdiv (Num a) NegInf = Num 0"
| "jdiv PosInf (Num b) = (if 0 \<le> b then PosInf else NegInf)"
| "jdiv NegInf (Num b) = (if 0 \<le> b then NegInf else PosInf)"
| "jdiv PosInf y = NaN"
| "jdiv NegInf y = NaN"

text \<open>The comparisons: every comparison with \<open>NaN\<close> is false.\<close>

fun jlt :: "jsnum \<Rightarrow> jsnum \<Rightarrow> bool" where
  "jlt (Num a) (Num b) = (a < b)"
| "jlt NaN y = False"
| "jlt x NaN = False"
| "jlt x NegInf = False"
| "jlt PosInf y = False"
| "jlt NegInf y = True"
| "jlt x PosInf = True"

fun jle :: "jsnum \<Rightarrow> jsnum \<Rightarrow> bool" where
  "jle (Num a) (Num b) = (a \<le> b)"
| "jle NaN y = False"
| "jle x NaN = False"
| "jle NegInf y = True"
| "jle x PosInf = True"
| "jle x NegInf = False"
| "jle PosInf y = False"

instantiation jsnum :: "{plus, minus, uminus, times, inverse, ord}"
begin

definition plus_jsnum :: "jsnum \<Rightarrow> jsnum \<Rightarrow> jsnum" where
  "plus_jsnum = jadd"

definition uminus_jsnum :: "jsnum \<Rightarrow> jsnum" where
  "uminus_jsnum = jneg"

definition minus_jsnum :: "jsnum \<Rightarrow> jsnum \<Rightarrow> jsnum" where
  "minus_jsnum x y = jadd x (jneg y)"

definition times_jsnum :: "jsnum \<Rightarrow> jsnum \<Rightarrow> jsnum" where
  "times_jsnum = jmul"

definition divide_jsnum :: "jsnum \<Rightarrow> jsnum \<Rightarrow> jsnum" where
  "divide_jsnum = jdiv"

definition inverse_jsnum :: "jsnum \<Rightarrow> jsnum" where
  "inverse_jsnum x = jdiv (Num 1) x"

definition less_jsnum :: "jsnum \<Rightarrow> jsnum \<Rightarrow> bool" where
  "less_jsnum = jlt"

definition less_eq_jsnum :: "jsnum \<Rightarrow> jsnum \<Rightarrow> bool" where
  "less_eq_jsnum = jle"

instance ..

end

text \<open>\<open>Math.PI\<close>, \<open>Math.cos\<close>, \<open>Math.sin\<close>, \<open>Math.sqrt\<close>,
  \<open>Math.min\<close>, \<open>Math.pow(x, 2)\<close>, \<open>Math.atan2\<close> and the remainder \<open>%\<close>
  (the result has the sign of the dividend).\<close>

definition Math_PI :: jsnum where
  "Math_PI = Num pi"

fun Math_cos :: "jsnum \<Rightarrow> jsnum" where
  "Math_cos (Num a) = Num (cos a)"
| "Math_cos x = NaN"

fun Math_sin :: "jsnum \<Rightarrow> jsnum" where
  "Math_sin (Num a) = Num (sin a)"
| "Math_sin x = NaN"

fun Math_sqrt :: "jsnum \<Rightarrow> jsnum" where
  "Math_sqrt (Num a) = (if a < 0 then NaN else Num (sqrt a))"
| "Math_sqrt PosInf = PosInf"
| "Math_sqrt x = NaN"

fun Math_min :: "jsnum \<Rightarrow> jsnum \<Rightarrow> jsnum" where
  "Math_min NaN y = NaN"
| "Math_min x NaN = NaN"
| "Math_min x y = (if jlt y x then y else x)"

definition Math_pow2 :: "jsnum \<Rightarrow> jsnum" where
  "Math_pow2 x = x * x"

fun Math_atan2 :: "jsnum \<Rightarrow> jsnum \<Rightarrow> jsnum" where
  "Math_atan2 (Num y) (Num x) =
     Num (if 0 < x then arctan (y / x)
          else if x < 0 then (if 0 \<le> y then arctan (y / x) + pi else arctan (y / x) - pi)
          else if 0 < y then pi / 2
          else if y < 0 then - pi / 2
          else 0)"
| "Math_atan2 NaN x = NaN"
| "Math_atan2 y NaN = NaN"
| "Math_atan2 (Num y) PosInf = Num 0"
| "Math_atan2 (Num y) NegInf = Num (if 0 \<le> y then pi else - pi)"
| "Math_atan2 PosInf (Num x) = Num (pi / 2)"
| "Math_atan2 NegInf (Num x) = Num (- pi / 2)"
| "Math_atan2 PosInf PosInf = Num (pi / 4)"
| "Math_atan2 PosInf NegInf = Num (3 * pi / 4)"
| "Math_atan2 NegInf PosInf = Num (- pi / 4)"
| "Math_atan2 NegInf NegInf = Num (- 3 * pi / 4)"

fun jmod :: "jsnum \<Rightarrow> jsnum \<Rightarrow> jsnum" where
  "jmod (Num a) (Num b) =
     (if b = 0 then NaN
      else Num (a - b * of_int (if 0 \<le> a / b then \<lfloor>a / b\<rfloor> else \<lceil>a / b\<rceil>)))"
| "jmod (Num a) PosInf = Num a"
| "jmod (Num a) NegInf = Num a"
| "jmod x y = NaN"

text \<open>\<open>x || d\<close> on a number that may be missing (\<open>undefined\<close> or \<open>null\<close>, here
  \<open>None\<close>): \<open>0\<close> and \<open>NaN\<close> are the falsy numbers.\<close>

fun orDefault :: "jsnum option \<Rightarrow> jsnum \<Rightarrow> jsnum" where
  "orDefault None d = d"
| "orDefault (Some x) d = (if x = Num 0 \<or> x = NaN then d else x)"

section \<open>Performance configuration\<close>

definition ENABLE_TRAILS :: bool where
  "ENABLE_TRAILS = True"

definition ENABLE_CURVES :: bool where
  "ENABLE_CURVES = True"

section \<open>Coordinate conversion\<close>

text \<open>\<open>config.bounds\<close> and the two dimensions of \<open>window\<close> the code reads.\<close>

record bounds =
  minLat :: jsnum
  maxLat :: jsnum
  minLon :: jsnum
  maxLon :: jsnum

record window =
  innerWidth :: jsnum
  innerHeight :: jsnum

text \<open>The object \<open>{ x, y }\<close> is the pair \<open>(x, y)\<close>, \<open>{ lat, lon }\<close> the pair
  \<open>(lat, lon)\<close>.\<close>

definition latLonToScreen :: "bounds \<Rightarrow> window \<Rightarrow> jsnum \<Rightarrow> jsnum \<Rightarrow> jsnum \<times> jsnum" where
  "latLonToScreen b w lat lon =
     (let x = ((lon - minLon b) / (maxLon b - minLon b)) * innerWidth w;
          y = (Num 1 - (lat - minLat b) / (maxLat b - minLat b)) * innerHeight w
      in (x, y))"

definition screenToLatLon :: "bounds \<Rightarrow> window \<Rightarrow> jsnum \<Rightarrow> jsnum \<Rightarrow> jsnum \<times> jsnum" where
  "screenToLatLon b w x y =
     (let lon = (x / innerWidth w) * (maxLon b - minLon b) + minLon b;
          lat = (Num 1 - y / innerHeight w) * (maxLat b - minLat b) + minLat b
      in (lat, lon))"

section \<open>Exit point\<close>

text \<open>The statement \<open>if (t > 0 && t < minT) minT = t;\<close>, as the new value of
  \<open>minT\<close>.\<close>

definition closer :: "jsnum \<Rightarrow> jsnum \<Rightarrow> jsnum" where
  "closer t minT = (if Num 0 < t \<and> t < minT then t else minT)"

text \<open>The search over the four edges (from \<open>let minT = Infinity\<close> to the left edge):
  the value of \<open>minT\<close> after it.\<close>

definition findMinT :: "bounds \<Rightarrow> jsnum \<Rightarrow> jsnum \<Rightarrow> jsnum \<Rightarrow> jsnum \<Rightarrow> jsnum" where
  "findMinT b startLat startLon dLat dLon =
     (let minT = PosInf;
          minT = (if Num 0 < dLat then closer ((maxLat b - startLat) / dLat) minT else minT);
          minT = (if dLat < Num 0 then closer ((minLat b - startLat) / dLat) minT else minT);
          minT = (if Num 0 < dLon then closer ((maxLon b - startLon) / dLon) minT else minT);
          minT = (if dLon < Num 0 then closer ((minLon b - startLon) / dLon) minT else minT)
      in minT)"

text \<open>The returned object \<open>{ lat: exitLat, lon: exitLon, distanceMeters }\<close>.\<close>

record exit_point =
  exitLat :: jsnum
  exitLon :: jsnum
  distanceMeters :: jsnum

definition calculateExitPoint :: "bounds \<Rightarrow> jsnum \<Rightarrow> jsnum \<Rightarrow> jsnum \<Rightarrow> exit_point" where
  "calculateExitPoint b startLat startLon headingDeg =
     (let headingRad = (headingDeg * Math_PI) / Num 180;
          dLat = Math_cos headingRad;
          dLon = Math_sin headingRad;
          minT = findMinT b startLat startLon dLat dLon;
          eLat = startLat + dLat * minT;
          eLon = startLon + dLon * minT;
          distanceDeg = Math_sqrt
            (Math_pow2 (eLat - startLat) +
             Math_pow2 ((eLon - startLon) * Math_cos (startLat * Math_PI / Num 180)));
          dMeters = distanceDeg * Num 111000
      in \<lparr>exitLat = eLat, exitLon = eLon, distanceMeters = dMeters\<rparr>)"

section \<open>Easing and curves\<close>

definition easeInOutSine :: "jsnum \<Rightarrow> jsnum" where
  "easeInOutSine t = - (Math_cos (Math_PI * t) - Num 1) / Num 2"

definition linear :: "jsnum \<Rightarrow> jsnum" where
  "linear t = t"

definition quadraticBezier :: "jsnum \<Rightarrow> jsnum \<Rightarrow> jsnum \<Rightarrow> jsnum \<Rightarrow> jsnum" where
  "quadraticBezier t p0 p1 p2 =
     (let mt = Num 1 - t in mt * mt * p0 + Num 2 * mt * t * p1 + t * t * p2)"

text \<open>
  \<open>generateCurveControl\<close> calls \<open>Math.random()\<close> one to three times. The results of
  the calls are an input of the model: \<open>rnd k\<close> is what call number \<open>k\<close> returns (a
  finite number), and the function returns, beside its result, the number of the next
  call. \<open>None\<close> is the \<open>null\<close> of a straight path.
\<close>

definition generateCurveControl ::
  "(nat \<Rightarrow> real) \<Rightarrow> nat \<Rightarrow> jsnum \<Rightarrow> jsnum \<Rightarrow> jsnum \<Rightarrow> jsnum \<Rightarrow> jsnum
     \<Rightarrow> (jsnum \<times> jsnum) option \<times> nat" where
  "generateCurveControl rnd k startLat startLon endLat endLon heading =
     (if \<not> ENABLE_CURVES then (None, k)
      else if Num 0.6 < Num (rnd k) then (None, k + 1)
      else
        let midLat = (startLat + endLat) / Num 2;
            midLon = (startLon + endLon) / Num 2;
            perpRad = ((heading + Num 90) * Math_PI) / Num 180;
            journeyDist = Math_sqrt
              (Math_pow2 (endLat - startLat) + Math_pow2 (endLon - startLon));
            offsetMagnitude = journeyDist * (Num 0.1 + Num (rnd (k + 1)) * Num 0.15);
            offsetSign = (if Num 0.5 < Num (rnd (k + 2)) then Num 1 else Num (- 1));
            controlLat = midLat + Math_cos perpRad * offsetMagnitude * offsetSign;
            controlLon = midLon + Math_sin perpRad * offsetMagnitude * offsetSign
        in (Some (controlLat, controlLon), k + 3))"

section \<open>Plane state and the registry\<close>

text \<open>
  One element of \<open>data.planes\<close>. A missing \<open>position\<close> or \<open>velocity_mps\<close> is
  \<open>None\<close>. The fields the plane state has too carry the prefix \<open>data_\<close>.
\<close>

record plane_data =
  data_id :: string
  data_callsign :: string
  data_country :: string
  position :: "(jsnum \<times> jsnum) option"
  data_heading :: jsnum
  velocity_mps :: "jsnum option"
  data_color :: string

text \<open>The plane state object built by \<open>fetchFlightData\<close> (its \<open>id\<close> is
  \<open>plane_id\<close> here).\<close>

record plane_state =
  plane_id :: string
  callsign :: string
  country :: string
  heading :: jsnum
  color :: string
  startLat :: jsnum
  startLon :: jsnum
  endLat :: jsnum
  endLon :: jsnum
  curveControl :: "(jsnum \<times> jsnum) option"
  startTime :: jsnum
  duration :: jsnum
  lat :: jsnum
  lon :: jsnum
  screenPos :: "jsnum \<times> jsnum"
  startScreenPos :: "jsnum \<times> jsnum"
  progress :: jsnum
  trailPoints :: "(jsnum \<times> jsnum) list"
  lastTrailProgress :: jsnum

text \<open>
  The \<open>Map\<close> \<open>planes\<close>: a list of entries in insertion order, one entry per key.
  \<open>set\<close> on a key that is present overwrites the value in place, on a new key it
  appends.
\<close>

type_synonym registry = "(string \<times> plane_state) list"

definition Map_get :: "registry \<Rightarrow> string \<Rightarrow> plane_state option" where
  "Map_get m k = map_of m k"

fun Map_set :: "registry \<Rightarrow> string \<Rightarrow> plane_state \<Rightarrow> registry" where
  "Map_set [] k v = [(k, v)]"
| "Map_set ((k', v') # m) k v = (if k' = k then (k, v) # m else (k', v') # Map_set m k v)"

definition Map_delete :: "registry \<Rightarrow> string \<Rightarrow> registry" where
  "Map_delete m k = filter (\<lambda>e. fst e \<noteq> k) m"

text \<open>
  The module state: the registry, the connection flag, the overlay, the plane elements
  of the document (by plane id), the count display, the strokes on the trails canvas (one
  list of screen points per plane, in drawing order), \<open>lastAnimateTime\<close>, and the
  number of calls of \<open>Math.random()\<close> so far.
\<close>

record app =
  planes :: registry
  isConnected :: bool
  overlayText :: string
  overlayVisible :: bool
  planeElements :: "string list"
  countText :: nat
  trailsCanvas :: "(jsnum \<times> jsnum) list list"
  lastAnimateTime :: jsnum
  randomCalls :: nat

definition showOverlay :: "string \<Rightarrow> app \<Rightarrow> app" where
  "showOverlay message a = a\<lparr>overlayText := message, overlayVisible := True\<rparr>"

definition hideOverlay :: "app \<Rightarrow> app" where
  "hideOverlay a = a\<lparr>overlayVisible := False\<rparr>"

definition updateCount :: "nat \<Rightarrow> app \<Rightarrow> app" where
  "updateCount n a = a\<lparr>countText := n\<rparr>"

text \<open>\<open>createPlaneElement\<close> when the document has no element for the id (the test in
  \<open>animate\<close>), and \<open>removePlaneElement\<close>.\<close>

definition ensurePlaneElement :: "string \<Rightarrow> string list \<Rightarrow> string list" where
  "ensurePlaneElement k els = (if k \<in> set els then els else els @ [k])"

definition removePlaneElement :: "string \<Rightarrow> string list \<Rightarrow> string list" where
  "removePlaneElement k els = filter (\<lambda>e. e \<noteq> k) els"

section \<open>Trails\<close>

text \<open>
  The position on the path at parameter \<open>t\<close>: the quadratic curve when the state has a
  control point, the straight line otherwise. \<open>drawTrails\<close> writes this branch out for
  the start of the trail and for its segments, \<open>animate\<close> for the plane itself.
\<close>

definition pathPoint :: "plane_state \<Rightarrow> jsnum \<Rightarrow> jsnum \<times> jsnum" where
  "pathPoint st t =
     (case curveControl st of
        Some (cLat, cLon) \<Rightarrow>
          (quadraticBezier t (startLat st) cLat (endLat st),
           quadraticBezier t (startLon st) cLon (endLon st))
      | None \<Rightarrow>
          (startLat st + (endLat st - startLat st) * t,
           startLon st + (endLon st - startLon st) * t))"

text \<open>\<open>trailStartProgress\<close> of \<open>drawTrails\<close>, from \<open>state.progress || 0\<close> on.\<close>

definition trailStartProgress :: "plane_state \<Rightarrow> jsnum" where
  "trailStartProgress st =
     (let p = orDefault (Some (progress st)) (Num 0);
          fadeProgress = (if Num 0.6 < p then (p - Num 0.6) / Num 0.4 else Num 0)
      in fadeProgress * p)"

text \<open>
  The path stroked for one plane: \<open>moveTo\<close> the start of the trail, then four segments
  along the curve, or one line to the plane. A state always has its \<open>screenPos\<close>, so the
  \<open>continue\<close> at the head of the loop is never taken. The gradient of the stroke is not
  modelled.
\<close>

definition trailStroke :: "bounds \<Rightarrow> window \<Rightarrow> plane_state \<Rightarrow> (jsnum \<times> jsnum) list" where
  "trailStroke b w st =
     (let p = orDefault (Some (progress st)) (Num 0);
          tsp = trailStartProgress st;
          trailStart = (case pathPoint st tsp of (la, lo) \<Rightarrow> latLonToScreen b w la lo)
      in trailStart #
         (case curveControl st of
            Some c \<Rightarrow>
              map (\<lambda>i. let t = tsp + (p - tsp) * (Num (real i) / Num 4)
                        in case pathPoint st t of (la, lo) \<Rightarrow> latLonToScreen b w la lo)
                  [1, 2, 3, 4 :: nat]
          | None \<Rightarrow> [screenPos st]))"

definition drawTrails :: "bounds \<Rightarrow> window \<Rightarrow> app \<Rightarrow> app" where
  "drawTrails b w a = a\<lparr>trailsCanvas := map (\<lambda>e. trailStroke b w (snd e)) (planes a)\<rparr>"

section \<open>Animation loop\<close>

definition TARGET_FPS :: jsnum where
  "TARGET_FPS = Num 30"

definition FRAME_INTERVAL :: jsnum where
  "FRAME_INTERVAL = Num 1000 / TARGET_FPS"

text \<open>The body of the loop over \<open>planes\<close> in \<open>animate\<close>, up to the update of the
  document: the new state of one plane at \<open>currentTime\<close>.\<close>

definition advance :: "bounds \<Rightarrow> window \<Rightarrow> jsnum \<Rightarrow> plane_state \<Rightarrow> plane_state" where
  "advance b w currentTime st =
     (let elapsed = currentTime - startTime st;
          p = Math_min (elapsed / duration st) (Num 1);
          st = st\<lparr>progress := p\<rparr>;
          easedProgress = linear p;
          st = (case curveControl st of
                  Some (cLat, cLon) \<Rightarrow>
                    let la = quadraticBezier easedProgress (startLat st) cLat (endLat st);
                        lo = quadraticBezier easedProgress (startLon st) cLon (endLon st);
                        dt = Num 0.01;
                        nextT = Math_min (easedProgress + dt) (Num 1);
                        nextLat = quadraticBezier nextT (startLat st) cLat (endLat st);
                        nextLon = quadraticBezier nextT (startLon st) cLon (endLon st)
                    in st\<lparr>lat := la, lon := lo,
                          heading := Math_atan2 (nextLon - lo) (nextLat - la) * Num 180 / Math_PI\<rparr>
                | None \<Rightarrow>
                    st\<lparr>lat := startLat st + (endLat st - startLat st) * easedProgress,
                       lon := startLon st + (endLon st - startLon st) * easedProgress\<rparr>);
          st = st\<lparr>screenPos := latLonToScreen b w (lat st) (lon st)\<rparr>;
          st = (if length (trailPoints st) = 0 \<or> Num 0.02 < p - lastTrailProgress st
                then let pts = trailPoints st @ [screenPos st]
                     in st\<lparr>trailPoints := (if 50 < length pts then tl pts else pts),
                           lastTrailProgress := p\<rparr>
                else st)
      in st)"

text \<open>
  One call of \<open>animate\<close>. A call less than \<open>FRAME_INTERVAL\<close> after the last frame
  changes nothing. Otherwise every plane is advanced to \<open>currentTime\<close> and gets its
  element; the ids with \<open>progress >= 1\<close> are collected in \<open>toRemove\<close> and then deleted
  from the document and from \<open>planes\<close>; the count and the trails are redrawn.
  \<open>requestAnimationFrame(animate)\<close> asks for the next call and is not part of the state.
\<close>

definition animate :: "bounds \<Rightarrow> window \<Rightarrow> jsnum \<Rightarrow> app \<Rightarrow> app" where
  "animate b w currentTime a =
     (let elapsed = currentTime - lastAnimateTime a
      in if elapsed < FRAME_INTERVAL then a
         else
           let a = a\<lparr>lastAnimateTime := currentTime - jmod elapsed FRAME_INTERVAL\<rparr>;
               advanced = map (\<lambda>e. (fst e, advance b w currentTime (snd e))) (planes a);
               els = fold (\<lambda>e. ensurePlaneElement (fst e)) advanced (planeElements a);
               toRemove = map fst (filter (\<lambda>e. Num 1 \<le> progress (snd e)) advanced);
               a = a\<lparr>planes := fold (\<lambda>k m. Map_delete m k) toRemove advanced,
                     planeElements := fold removePlaneElement toRemove els\<rparr>;
               a = updateCount (length (planes a)) a
           in if ENABLE_TRAILS then drawTrails b w a else a)"

section \<open>Fetching flight data\<close>

text \<open>
  What one poll of \<open>flights.json\<close> gives: a failure before the body is there (the
  fetch rejects, the status is not ok, or the body is not JSON), a body with
  \<open>status === 'error'\<close>, a body whose \<open>planes\<close> cannot be iterated (the loop throws
  at once, after the connection flag is set), or the list \<open>data.planes\<close>.
\<close>

datatype fetched = Failed | ErrorStatus | NoPlanes | Planes "plane_data list"

text \<open>The new-plane part of the loop body, for a sample with a position;
  \<open>now\<close> is the value of \<open>performance.now()\<close>.\<close>

definition newPlane ::
  "bounds \<Rightarrow> window \<Rightarrow> (nat \<Rightarrow> real) \<Rightarrow> jsnum \<Rightarrow> plane_data \<Rightarrow> jsnum \<Rightarrow> jsnum \<Rightarrow> app \<Rightarrow> app" where
  "newPlane b w rnd now planeData sLat sLon a =
     (let hdg = data_heading planeData;
          velocityMps = orDefault (velocity_mps planeData) (Num 200);
          exit = calculateExitPoint b sLat sLon hdg;
          speedMultiplier = Num 3;
          durationMs = (distanceMeters exit / velocityMps / speedMultiplier) * Num 1000;
          (cc, k) = generateCurveControl rnd (randomCalls a)
                      sLat sLon (exitLat exit) (exitLon exit) hdg;
          sPos = latLonToScreen b w sLat sLon;
          state = \<lparr>plane_id = data_id planeData,
                   callsign = data_callsign planeData,
                   country = data_country planeData,
                   heading = hdg,
                   color = data_color planeData,
                   startLat = sLat,
                   startLon = sLon,
                   endLat = exitLat exit,
                   endLon = exitLon exit,
                   curveControl = cc,
                   startTime = now,
                   duration = durationMs,
                   lat = sLat,
                   lon = sLon,
                   screenPos = sPos,
                   startScreenPos = sPos,
                   progress = Num 0,
                   trailPoints = [sPos],
                   lastTrailProgress = Num 0\<rparr>
      in a\<lparr>planes := Map_set (planes a) (data_id planeData) state, randomCalls := k\<rparr>)"

text \<open>
  The loop over \<open>data.planes\<close>; \<open>planes.has\<close> followed by \<open>planes.get\<close> is
  one lookup here. A sample of a tracked id overwrites \<open>callsign\<close> and
  \<open>country\<close> of the state and nothing else. A sample of a new id without a position
  makes \<open>planeData.position.lat\<close> throw a TypeError, which ends the loop (\<open>False\<close>);
  what the loop did before stays. \<open>now i\<close> is what \<open>performance.now()\<close> returns for
  the sample at index \<open>i\<close>.
\<close>

fun processPlanes ::
  "bounds \<Rightarrow> window \<Rightarrow> (nat \<Rightarrow> real) \<Rightarrow> (nat \<Rightarrow> jsnum) \<Rightarrow> nat \<Rightarrow> plane_data list \<Rightarrow> app
     \<Rightarrow> bool \<times> app" where
  "processPlanes b w rnd now i [] a = (True, a)"
| "processPlanes b w rnd now i (planeData # rest) a =
     (case Map_get (planes a) (data_id planeData) of
        Some state \<Rightarrow>
          processPlanes b w rnd now (i + 1) rest
            (a\<lparr>planes := Map_set (planes a) (data_id planeData)
                   (state\<lparr>callsign := data_callsign planeData,
                          country := data_country planeData\<rparr>)\<rparr>)
      | None \<Rightarrow>
          (case position planeData of
             None \<Rightarrow> (False, a)
           | Some (sLat, sLon) \<Rightarrow>
               processPlanes b w rnd now (i + 1) rest
                 (newPlane b w rnd (now i) planeData sLat sLon a)))"

definition onFetchError :: "string \<Rightarrow> app \<Rightarrow> app" where
  "onFetchError message a =
     (if isConnected a then (showOverlay message a)\<lparr>isConnected := False\<rparr> else a)"

definition fetchFlightData ::
  "bounds \<Rightarrow> window \<Rightarrow> (nat \<Rightarrow> real) \<Rightarrow> (nat \<Rightarrow> jsnum) \<Rightarrow> fetched \<Rightarrow> app \<Rightarrow> app" where
  "fetchFlightData b w rnd now response a =
     (case response of
        Failed \<Rightarrow> onFetchError ''Reconnecting...'' a
      | ErrorStatus \<Rightarrow> onFetchError ''Connection lost. Reconnecting...'' a
      | NoPlanes \<Rightarrow>
          onFetchError ''Reconnecting...''
            (if \<not> isConnected a then (hideOverlay a)\<lparr>isConnected := True\<rparr> else a)
      | Planes ps \<Rightarrow>
          let a = (if \<not> isConnected a then (hideOverlay a)\<lparr>isConnected := True\<rparr> else a)
          in (case processPlanes b w rnd now 0 ps a of
                (True, a') \<Rightarrow> a'
              | (False, a') \<Rightarrow> onFetchError ''Reconnecting...'' a'))"

section \<open>Arithmetic on finite numbers\<close>

lemmas jsnum_ops =
  plus_jsnum_def uminus_jsnum_def minus_jsnum_def times_jsnum_def divide_jsnum_def
  less_jsnum_def less_eq_jsnum_def signedInf_def

lemma Num_plus [simp]: "Num a + Num b = Num (a + b)"
  by (simp add: plus_jsnum_def)

lemma Num_minus [simp]: "Num a - Num b = Num (a - b)"
  by (simp add: minus_jsnum_def)

lemma Num_uminus [simp]: "- Num a = Num (- a)"
  by (simp add: uminus_jsnum_def)

lemma Num_times [simp]: "Num a * Num b = Num (a * b)"
  by (simp add: times_jsnum_def)

lemma Num_divide [simp]: "b \<noteq> 0 \<Longrightarrow> Num a / Num b = Num (a / b)"
  by (simp add: divide_jsnum_def)

lemma Num_less [simp]: "(Num a < Num b) = (a < b)"
  by (simp add: less_jsnum_def)

lemma Num_less_eq [simp]: "(Num a \<le> Num b) = (a \<le> b)"
  by (simp add: less_eq_jsnum_def)

lemma jsnum_less_special [simp]:
  "(Num a < PosInf) = True" "(PosInf < x) = False" "(x < NaN) = False" "(NaN < x) = False"
  by (cases x; simp add: less_jsnum_def)+

section \<open>Projection round trip\<close>

text \<open>
  C7. With finite bounds, \<open>min < max\<close> on both axes, and a viewport of positive width and
  height, \<open>screenToLatLon\<close> of \<open>latLonToScreen\<close> gives back the geographic point, and
  \<open>latLonToScreen\<close> of \<open>screenToLatLon\<close> gives back the screen point, exactly (finite
  numbers are exact reals here). The point need not even lie inside the region.
\<close>

theorem projection_round_trip:
  assumes "la0 < la1" and "lo0 < lo1" and "0 < wd" and "0 < ht"
  defines "b \<equiv> \<lparr>minLat = Num la0, maxLat = Num la1, minLon = Num lo0, maxLon = Num lo1\<rparr>"
      and "w \<equiv> \<lparr>innerWidth = Num wd, innerHeight = Num ht\<rparr>"
  shows "(case latLonToScreen b w (Num la) (Num lo) of (x, y) \<Rightarrow> screenToLatLon b w x y)
           = (Num la, Num lo)
       \<and> (case screenToLatLon b w (Num x) (Num y) of (la', lo') \<Rightarrow> latLonToScreen b w la' lo')
           = (Num x, Num y)"
  using assms by (simp add: latLonToScreen_def screenToLatLon_def field_simps)

theorem projection_round_trip_witness:
  "(case latLonToScreen
           \<lparr>minLat = Num 51, maxLat = Num 52, minLon = Num (-1), maxLon = Num 1\<rparr>
           \<lparr>innerWidth = Num 800, innerHeight = Num 480\<rparr> (Num (103/2)) (Num (1/2))
    of (x, y) \<Rightarrow> screenToLatLon
           \<lparr>minLat = Num 51, maxLat = Num 52, minLon = Num (-1), maxLon = Num 1\<rparr>
           \<lparr>innerWidth = Num 800, innerHeight = Num 480\<rparr> x y)
     = (Num (103/2), Num (1/2))
   \<and> latLonToScreen
           \<lparr>minLat = Num 51, maxLat = Num 52, minLon = Num (-1), maxLon = Num 1\<rparr>
           \<lparr>innerWidth = Num 800, innerHeight = Num 480\<rparr> (Num (103/2)) (Num (1/2))
     = (Num 600, Num 240)"
  using projection_round_trip [of 51 52 "-1" 1 800 480 "103/2" "1/2" 600 240]
  by (simp add: latLonToScreen_def screenToLatLon_def)

section \<open>Exit point on the boundary\<close>

lemma closer_PosInf: "0 < t \<Longrightarrow> closer (Num t) PosInf = Num t"
  by (simp add: closer_def)

lemma closer_Num: "0 < t \<Longrightarrow> closer (Num t) (Num m) = Num (if t < m then t else m)"
  by (simp add: closer_def)

lemma axis_step:
  fixes c :: real
  assumes "lo < p" "p < hi" "0 < m"
    and "c \<noteq> 0 \<Longrightarrow> m \<le> (if 0 < c then (hi - p) / c else (lo - p) / c)"
  shows "lo \<le> p + c * m \<and> p + c * m \<le> hi"
proof (cases "0 < c")
  case True
  then have "c * m \<le> hi - p"
    using assms(4) by (simp add: pos_le_divide_eq mult.commute)
  moreover have "0 < c * m" using True assms(3) by simp
  ultimately show ?thesis using True assms(1,2) by simp
next
  case False
  show ?thesis
  proof (cases "c = 0")
    case True
    then show ?thesis using assms(1,2) by simp
  next
    case nz: False
    then have neg: "c < 0" using False by simp
    then have "lo - p \<le> c * m"
      using assms(4) nz by (simp add: neg_le_divide_eq mult.commute)
    moreover have "c * m < 0" using neg assms(3) by (simp add: mult_neg_pos)
    ultimately show ?thesis using nz assms(1,2) by simp
  qed
qed

lemma findMinT_inside:
  assumes "la0 < sLat" "sLat < la1" "lo0 < sLon" "sLon < lo1" and nz: "c \<noteq> 0 \<or> s \<noteq> 0"
  defines "b \<equiv> \<lparr>minLat = Num la0, maxLat = Num la1, minLon = Num lo0, maxLon = Num lo1\<rparr>"
  shows "\<exists>m. findMinT b (Num sLat) (Num sLon) (Num c) (Num s) = Num m \<and> 0 < m
     \<and> la0 \<le> sLat + c * m \<and> sLat + c * m \<le> la1 \<and> lo0 \<le> sLon + s * m \<and> sLon + s * m \<le> lo1
     \<and> (sLat + c * m = la1 \<or> sLat + c * m = la0 \<or> sLon + s * m = lo1 \<or> sLon + s * m = lo0)"
proof -
  define tLat where "tLat = (if 0 < c then (la1 - sLat) / c else (la0 - sLat) / c)"
  define tLon where "tLon = (if 0 < s then (lo1 - sLon) / s else (lo0 - sLon) / s)"
  define m where "m = (if c \<noteq> 0 then (if s \<noteq> 0 \<and> tLon < tLat then tLon else tLat) else tLon)"
  have tLat: "c \<noteq> 0 \<Longrightarrow> 0 < tLat"
    using assms(1,2) by (simp add: tLat_def divide_neg_neg)
  have tLon: "s \<noteq> 0 \<Longrightarrow> 0 < tLon"
    using assms(3,4) by (simp add: tLon_def divide_neg_neg)
  have dLat: "0 < c \<Longrightarrow> (la1 - sLat) / c = tLat" "c < 0 \<Longrightarrow> (la0 - sLat) / c = tLat"
    by (simp_all add: tLat_def)
  have dLon: "0 < s \<Longrightarrow> (lo1 - sLon) / s = tLon" "s < 0 \<Longrightarrow> (lo0 - sLon) / s = tLon"
    by (simp_all add: tLon_def)
  have eq: "findMinT b (Num sLat) (Num sLon) (Num c) (Num s) = Num m"
  proof -
    consider "0 < c" "0 < s" | "0 < c" "s < 0" | "0 < c" "s = 0"
      | "c < 0" "0 < s" | "c < 0" "s < 0" | "c < 0" "s = 0"
      | "c = 0" "0 < s" | "c = 0" "s < 0"
      using nz by linarith
    then show ?thesis
    proof cases
      case 1
      then show ?thesis using tLat tLon
        by (simp add: findMinT_def b_def m_def dLat dLon closer_PosInf closer_Num)
    next
      case 2
      then show ?thesis using tLat tLon
        by (simp add: findMinT_def b_def m_def dLat dLon closer_PosInf closer_Num)
    next
      case 3
      then show ?thesis using tLat
        by (simp add: findMinT_def b_def m_def dLat closer_PosInf)
    next
      case 4
      then show ?thesis using tLat tLon
        by (simp add: findMinT_def b_def m_def dLat dLon closer_PosInf closer_Num)
    next
      case 5
      then show ?thesis using tLat tLon
        by (simp add: findMinT_def b_def m_def dLat dLon closer_PosInf closer_Num)
    next
      case 6
      then show ?thesis using tLat
        by (simp add: findMinT_def b_def m_def dLat closer_PosInf)
    next
      case 7
      then show ?thesis using tLon
        by (simp add: findMinT_def b_def m_def dLon closer_PosInf)
    next
      case 8
      then show ?thesis using tLon
        by (simp add: findMinT_def b_def m_def dLon closer_PosInf)
    qed
  qed
  have pos: "0 < m" using tLat tLon nz by (auto simp: m_def)
  have le1: "c \<noteq> 0 \<Longrightarrow> m \<le> tLat" by (auto simp: m_def)
  have le2: "s \<noteq> 0 \<Longrightarrow> m \<le> tLon" by (auto simp: m_def)
  have inLat: "la0 \<le> sLat + c * m \<and> sLat + c * m \<le> la1"
    using axis_step [OF assms(1,2) pos, of c] le1 by (simp add: tLat_def)
  have inLon: "lo0 \<le> sLon + s * m \<and> sLon + s * m \<le> lo1"
    using axis_step [OF assms(3,4) pos, of s] le2 by (simp add: tLon_def)
  have "m = tLat \<and> c \<noteq> 0 \<or> m = tLon \<and> s \<noteq> 0"
    using nz by (auto simp: m_def)
  then have edge: "sLat + c * m = la1 \<or> sLat + c * m = la0 \<or> sLon + s * m = lo1 \<or> sLon + s * m = lo0"
    by (auto simp: tLat_def tLon_def)
  show ?thesis using eq pos inLat inLon edge by blast
qed


lemma headingRad_Num: "Num h * Math_PI / Num 180 = Num (h * pi / 180)"
  by (simp add: Math_PI_def)

lemma exitLat_calc:
  "exitLat (calculateExitPoint b sLat sLon h) =
     sLat + Math_cos (h * Math_PI / Num 180) *
       findMinT b sLat sLon (Math_cos (h * Math_PI / Num 180)) (Math_sin (h * Math_PI / Num 180))"
  by (simp add: calculateExitPoint_def Let_def)

lemma exitLon_calc:
  "exitLon (calculateExitPoint b sLat sLon h) =
     sLon + Math_sin (h * Math_PI / Num 180) *
       findMinT b sLat sLon (Math_cos (h * Math_PI / Num 180)) (Math_sin (h * Math_PI / Num 180))"
  by (simp add: calculateExitPoint_def Let_def)

lemma distanceMeters_calc:
  "distanceMeters (calculateExitPoint b sLat sLon h) =
     Math_sqrt
       (Math_pow2 (exitLat (calculateExitPoint b sLat sLon h) - sLat) +
        Math_pow2 ((exitLon (calculateExitPoint b sLat sLon h) - sLon) *
                   Math_cos (sLat * Math_PI / Num 180))) * Num 111000"
  by (simp add: calculateExitPoint_def Let_def)

lemma cos_sin_not_both_zero: "cos (x::real) \<noteq> 0 \<or> sin x \<noteq> 0"
proof (rule ccontr)
  assume "\<not> (cos x \<noteq> 0 \<or> sin x \<noteq> 0)"
  then have "(sin x)\<^sup>2 + (cos x)\<^sup>2 = 0" by simp
  then show False by (simp only: sin_cos_squared_add)
qed

text \<open>
  C1. For a start strictly inside the region (finite bounds) and any finite heading, the
  exit point of \<open>calculateExitPoint\<close> is finite, has a coordinate equal to one of the
  four edge values, lies in the closed region (the search takes the first edge reached),
  and the signs of its latitude and longitude offsets from the start are the signs of the
  north (\<open>cos\<close>) and east (\<open>sin\<close>) components of the heading.
\<close>

theorem exit_point_on_boundary:
  assumes "la0 < sLat" and "sLat < la1" and "lo0 < sLon" and "sLon < lo1"
  defines "b \<equiv> \<lparr>minLat = Num la0, maxLat = Num la1, minLon = Num lo0, maxLon = Num lo1\<rparr>"
  shows "\<exists>eLat eLon.
           exitLat (calculateExitPoint b (Num sLat) (Num sLon) (Num h)) = Num eLat
         \<and> exitLon (calculateExitPoint b (Num sLat) (Num sLon) (Num h)) = Num eLon
         \<and> (eLat = la1 \<or> eLat = la0 \<or> eLon = lo1 \<or> eLon = lo0)
         \<and> la0 \<le> eLat \<and> eLat \<le> la1 \<and> lo0 \<le> eLon \<and> eLon \<le> lo1
         \<and> sgn (eLat - sLat) = sgn (cos (h * pi / 180))
         \<and> sgn (eLon - sLon) = sgn (sin (h * pi / 180))"
proof -
  define c where "c = cos (h * pi / 180)"
  define s where "s = sin (h * pi / 180)"
  have "c \<noteq> 0 \<or> s \<noteq> 0"
    unfolding c_def s_def by (rule cos_sin_not_both_zero)
  from findMinT_inside [OF assms(1-4) this]
  obtain m where m: "findMinT b (Num sLat) (Num sLon) (Num c) (Num s) = Num m" "0 < m"
      "la0 \<le> sLat + c * m" "sLat + c * m \<le> la1" "lo0 \<le> sLon + s * m" "sLon + s * m \<le> lo1"
      "sLat + c * m = la1 \<or> sLat + c * m = la0 \<or> sLon + s * m = lo1 \<or> sLon + s * m = lo0"
    unfolding b_def by blast
  have eLat: "exitLat (calculateExitPoint b (Num sLat) (Num sLon) (Num h)) = Num (sLat + c * m)"
    using m(1) by (simp add: exitLat_calc headingRad_Num c_def s_def)
  have eLon: "exitLon (calculateExitPoint b (Num sLat) (Num sLon) (Num h)) = Num (sLon + s * m)"
    using m(1) by (simp add: exitLon_calc headingRad_Num c_def s_def)
  have "sgn (sLat + c * m - sLat) = sgn c" "sgn (sLon + s * m - sLon) = sgn s"
    using m(2) by (simp_all add: sgn_mult)
  then show ?thesis
    using eLat eLon m(3-7) unfolding c_def s_def by blast
qed

theorem exit_point_on_boundary_witness:
  "\<exists>eLat eLon.
      exitLat (calculateExitPoint
         \<lparr>minLat = Num 51, maxLat = Num 52, minLon = Num (-1), maxLon = Num 1\<rparr>
         (Num (103/2)) (Num 0) (Num 0)) = Num eLat
    \<and> exitLon (calculateExitPoint
         \<lparr>minLat = Num 51, maxLat = Num 52, minLon = Num (-1), maxLon = Num 1\<rparr>
         (Num (103/2)) (Num 0) (Num 0)) = Num eLon
    \<and> (eLat = 52 \<or> eLat = 51 \<or> eLon = 1 \<or> eLon = -1)
    \<and> 51 \<le> eLat \<and> eLat \<le> 52 \<and> -1 \<le> eLon \<and> eLon \<le> 1
    \<and> sgn (eLat - 103/2) = 1 \<and> sgn (eLon - 0) = 0"
  using exit_point_on_boundary [of 51 "103/2" 52 "-1" 0 1 0] by simp

section \<open>No forward intersection\<close>

lemma nonfinite_plus: "\<not> isFinite x \<or> \<not> isFinite y \<Longrightarrow> \<not> isFinite (x + y)"
  by (cases x; cases y; simp add: plus_jsnum_def)

lemma nonfinite_minus: "\<not> isFinite x \<or> \<not> isFinite y \<Longrightarrow> \<not> isFinite (x - y)"
  by (cases x; cases y; simp add: minus_jsnum_def)

lemma nonfinite_times: "\<not> isFinite x \<or> \<not> isFinite y \<Longrightarrow> \<not> isFinite (x * y)"
  by (cases x; cases y; simp add: times_jsnum_def signedInf_def)

lemma nonfinite_sqrt: "\<not> isFinite x \<Longrightarrow> \<not> isFinite (Math_sqrt x)"
  by (cases x; simp)

lemma nonfinite_pow2: "\<not> isFinite x \<Longrightarrow> \<not> isFinite (Math_pow2 x)"
  by (simp add: Math_pow2_def nonfinite_times)

lemma findMinT_finds:
  assumes "la0 < sLat" and "sLat < la1" and "lo0 < sLon" and "sLon < lo1"
  shows "findMinT \<lparr>minLat = Num la0, maxLat = Num la1, minLon = Num lo0, maxLon = Num lo1\<rparr>
           (Num sLat) (Num sLon)
           (Math_cos (Num h * Math_PI / Num 180)) (Math_sin (Num h * Math_PI / Num 180)) \<noteq> PosInf"
  using findMinT_inside [OF assms cos_sin_not_both_zero [of "h * pi / 180"]]
  by (auto simp: headingRad_Num)

text \<open>
  C2, as the specification states it, fails: \<open>calculateExitPoint\<close> has no fallback. For
  a plane north of the region and heading north, no edge is crossed forward, \<open>minT\<close>
  stays \<open>Infinity\<close>, and the exit point is \<open>(Infinity, NaN)\<close> with distance
  \<open>NaN\<close>, not a corner of the rectangle.
\<close>

theorem no_fallback_counterexample:
  "findMinT \<lparr>minLat = Num 0, maxLat = Num 10, minLon = Num 0, maxLon = Num 10\<rparr>
      (Num 11) (Num 5)
      (Math_cos (Num 0 * Math_PI / Num 180)) (Math_sin (Num 0 * Math_PI / Num 180)) = PosInf
   \<and> calculateExitPoint \<lparr>minLat = Num 0, maxLat = Num 10, minLon = Num 0, maxLon = Num 10\<rparr>
        (Num 11) (Num 5) (Num 0)
      = \<lparr>exitLat = PosInf, exitLon = NaN, distanceMeters = NaN\<rparr>"
  by (simp add: calculateExitPoint_def findMinT_def closer_def Math_PI_def Math_pow2_def
      jsnum_ops)

text \<open>
  C2, amended. When the search finds no forward intersection (\<open>minT\<close> is still
  \<open>Infinity\<close> after the four edges), neither exit coordinate is finite, nor is the
  distance: each is \<open>Infinity\<close>, \<open>-Infinity\<close> or \<open>NaN\<close>. For a start strictly
  inside the region and a finite heading the search always finds a forward intersection.
\<close>

theorem no_forward_intersection:
  "(findMinT b sLat sLon (Math_cos (h * Math_PI / Num 180)) (Math_sin (h * Math_PI / Num 180))
      = PosInf
    \<longrightarrow> \<not> isFinite (exitLat (calculateExitPoint b sLat sLon h))
      \<and> \<not> isFinite (exitLon (calculateExitPoint b sLat sLon h))
      \<and> \<not> isFinite (distanceMeters (calculateExitPoint b sLat sLon h)))
   \<and> (la0 < la \<and> la < la1 \<and> lo0 < lo \<and> lo < lo1
    \<longrightarrow> findMinT \<lparr>minLat = Num la0, maxLat = Num la1, minLon = Num lo0, maxLon = Num lo1\<rparr>
          (Num la) (Num lo)
          (Math_cos (Num hg * Math_PI / Num 180)) (Math_sin (Num hg * Math_PI / Num 180))
        \<noteq> PosInf)"
proof (intro conjI impI)
  assume inf: "findMinT b sLat sLon (Math_cos (h * Math_PI / Num 180))
                 (Math_sin (h * Math_PI / Num 180)) = PosInf"
  show nlat: "\<not> isFinite (exitLat (calculateExitPoint b sLat sLon h))"
    by (simp add: exitLat_calc inf nonfinite_plus nonfinite_times)
  show "\<not> isFinite (exitLon (calculateExitPoint b sLat sLon h))"
    by (simp add: exitLon_calc inf nonfinite_plus nonfinite_times)
  show "\<not> isFinite (distanceMeters (calculateExitPoint b sLat sLon h))"
    unfolding distanceMeters_calc
    by (intro nonfinite_times disjI1 nonfinite_sqrt nonfinite_plus nonfinite_pow2
        nonfinite_minus nlat)
next
  assume "la0 < la \<and> la < la1 \<and> lo0 < lo \<and> lo < lo1"
  then show "findMinT \<lparr>minLat = Num la0, maxLat = Num la1, minLon = Num lo0, maxLon = Num lo1\<rparr>
          (Num la) (Num lo)
          (Math_cos (Num hg * Math_PI / Num 180)) (Math_sin (Num hg * Math_PI / Num 180))
        \<noteq> PosInf"
    by (simp add: findMinT_finds)
qed


theorem no_forward_intersection_witness:
  "findMinT \<lparr>minLat = Num 0, maxLat = Num 10, minLon = Num 0, maxLon = Num 10\<rparr>
      (Num 11) (Num 5)
      (Math_cos (Num 0 * Math_PI / Num 180)) (Math_sin (Num 0 * Math_PI / Num 180)) = PosInf
   \<and> \<not> isFinite (exitLat (calculateExitPoint
         \<lparr>minLat = Num 0, maxLat = Num 10, minLon = Num 0, maxLon = Num 10\<rparr>
         (Num 11) (Num 5) (Num 0)))
   \<and> \<not> isFinite (exitLon (calculateExitPoint
         \<lparr>minLat = Num 0, maxLat = Num 10, minLon = Num 0, maxLon = Num 10\<rparr>
         (Num 11) (Num 5) (Num 0)))
   \<and> \<not> isFinite (distanceMeters (calculateExitPoint
         \<lparr>minLat = Num 0, maxLat = Num 10, minLon = Num 0, maxLon = Num 10\<rparr>
         (Num 11) (Num 5) (Num 0)))
   \<and> (0::real) < 5 \<and> (5::real) < 10
   \<and> findMinT \<lparr>minLat = Num 0, maxLat = Num 10, minLon = Num 0, maxLon = Num 10\<rparr>
      (Num 5) (Num 5)
      (Math_cos (Num 0 * Math_PI / Num 180)) (Math_sin (Num 0 * Math_PI / Num 180)) \<noteq> PosInf"
proof -
  have "findMinT \<lparr>minLat = Num 0, maxLat = Num 10, minLon = Num 0, maxLon = Num 10\<rparr>
      (Num 11) (Num 5)
      (Math_cos (Num 0 * Math_PI / Num 180)) (Math_sin (Num 0 * Math_PI / Num 180)) = PosInf"
    by (simp add: findMinT_def closer_def Math_PI_def)
  then show ?thesis
    using no_forward_intersection
      [where b = "\<lparr>minLat = Num 0, maxLat = Num 10, minLon = Num 0, maxLon = Num 10\<rparr>"
         and sLat = "Num 11" and sLon = "Num 5" and h = "Num 0"
         and ?la0.0 = 0 and la = 5 and ?la1.0 = 10 and ?lo0.0 = 0 and lo = 5 and ?lo1.0 = 10
         and hg = 0]
    by simp
qed

section \<open>New planes\<close>

lemma Map_get_Map_set: "Map_get (Map_set m k v) k' = (if k' = k then Some v else Map_get m k')"
  by (induction m) (auto simp: Map_get_def)

lemma planes_newPlane:
  "planes (newPlane b w rnd now pd sLat sLon a) =
     Map_set (planes a) (data_id pd)
       (the (Map_get (planes (newPlane b w rnd now pd sLat sLon a)) (data_id pd)))"
  by (simp add: newPlane_def Let_def Map_get_Map_set split: prod.split)

lemma duration_newPlane:
  "Map_get (planes (newPlane b w rnd now pd sLat sLon a)) (data_id pd) = Some st \<Longrightarrow>
   duration st = distanceMeters (calculateExitPoint b sLat sLon (data_heading pd))
                   / orDefault (velocity_mps pd) (Num 200) / Num 3 * Num 1000"
  by (auto simp: newPlane_def Let_def Map_get_Map_set split: prod.splits)

lemma newPlane_tracked:
  "\<exists>st. Map_get (planes (newPlane b w rnd now pd sLat sLon a)) (data_id pd) = Some st"
  by (simp add: newPlane_def Let_def Map_get_Map_set split: prod.split)

lemma distance_positive:
  assumes "la0 < sLat" and "sLat < la1" and "lo0 < sLon" and "sLon < lo1"
    and "- 90 < sLat" and "sLat < 90"
  shows "\<exists>dist. distanceMeters (calculateExitPoint
            \<lparr>minLat = Num la0, maxLat = Num la1, minLon = Num lo0, maxLon = Num lo1\<rparr>
            (Num sLat) (Num sLon) (Num h)) = Num dist \<and> 0 < dist"
proof -
  define b where "b = \<lparr>minLat = Num la0, maxLat = Num la1, minLon = Num lo0, maxLon = Num lo1\<rparr>"
  define c where "c = cos (h * pi / 180)"
  define s where "s = sin (h * pi / 180)"
  define k where "k = cos (sLat * pi / 180)"
  have nz: "c \<noteq> 0 \<or> s \<noteq> 0"
    unfolding c_def s_def by (rule cos_sin_not_both_zero)
  from findMinT_inside [OF assms(1-4) this]
  obtain m where m: "findMinT b (Num sLat) (Num sLon) (Num c) (Num s) = Num m" "0 < m"
    unfolding b_def by blast
  have "- 90 * pi < sLat * pi" "sLat * pi < 90 * pi"
    using mult_strict_right_mono [OF assms(5) pi_gt_zero]
      mult_strict_right_mono [OF assms(6) pi_gt_zero] by simp_all
  then have "- (pi / 2) < sLat * pi / 180" "sLat * pi / 180 < pi / 2"
    by linarith+
  then have k: "0 < k"
    unfolding k_def by (rule cos_gt_zero_pi)
  have eLat: "exitLat (calculateExitPoint b (Num sLat) (Num sLon) (Num h)) = Num (sLat + c * m)"
    using m(1) by (simp add: exitLat_calc headingRad_Num c_def s_def)
  have eLon: "exitLon (calculateExitPoint b (Num sLat) (Num sLon) (Num h)) = Num (sLon + s * m)"
    using m(1) by (simp add: exitLon_calc headingRad_Num c_def s_def)
  define q where "q = (c * m) * (c * m) + (s * m * k) * (s * m * k)"
  have "c * m \<noteq> 0 \<or> s * m * k \<noteq> 0"
    using nz m(2) k by auto
  then have q: "0 < q"
    unfolding q_def by (simp only: sum_squares_gt_zero_iff)
  have "distanceMeters (calculateExitPoint b (Num sLat) (Num sLon) (Num h))
          = Math_sqrt (Num q) * Num 111000"
    by (simp add: distanceMeters_calc eLat eLon Math_pow2_def headingRad_Num k_def q_def)
  also have "\<dots> = Num (sqrt q * 111000)"
    using q by simp
  finally show ?thesis
    using q unfolding b_def by simp
qed

section \<open>Progress and interpolation\<close>

lemma Math_min_Num: "Math_min (Num x) (Num y) = Num (min x y)"
  by (simp add: min_def)

lemma progress_advance:
  "progress (advance b w t st) = Math_min ((t - startTime st) / duration st) (Num 1)"
  by (simp add: advance_def Let_def split: option.split prod.split)

lemma position_advance:
  "(lat (advance b w t st), lon (advance b w t st)) =
     pathPoint st (linear (Math_min ((t - startTime st) / duration st) (Num 1)))"
  by (simp add: advance_def pathPoint_def Let_def split: option.split prod.split)

lemma progress_advance_Num:
  assumes "startTime st = Num t0" and "duration st = Num d" and "0 < d"
  shows "progress (advance b w (Num t) st) = Num (min ((t - t0) / d) 1)"
  using assms by (simp add: progress_advance Math_min_Num)

text \<open>
  C4. For a trajectory with a finite start time and a finite positive duration, the
  progress \<open>animate\<close> stores at a finite time \<open>t\<close> is \<open>min (elapsed / duration) 1\<close>;
  it does not decrease when \<open>t\<close> grows, it is \<open>1\<close> when the elapsed time equals the
  duration, and it is never above \<open>1\<close>.
\<close>

theorem progress_monotone:
  assumes "startTime st = Num t0" and "duration st = Num d" and "0 < d"
  shows "progress (advance b w (Num t) st) = Num (min ((t - t0) / d) 1)
       \<and> (t \<le> t' \<longrightarrow> progress (advance b w (Num t) st) \<le> progress (advance b w (Num t') st))
       \<and> progress (advance b w (Num (t0 + d)) st) = Num 1
       \<and> progress (advance b w (Num t) st) \<le> Num 1"
proof -
  have mono: "t \<le> t' \<Longrightarrow> min ((t - t0) / d) 1 \<le> min ((t' - t0) / d) 1"
    using assms(3) by (simp add: divide_right_mono min_le_iff_disj)
  show ?thesis
    using assms mono by (simp add: progress_advance_Num)
qed


theorem progress_monotone_witness:
  "startTime
     \<lparr>plane_id = ''4ca7b3'', callsign = ''RYR22'', country = ''Ireland'',
      heading = Num 0, color = ''#ff6b6b'', startLat = Num (103/2), startLon = Num 0,
      endLat = Num 52, endLon = Num 0, curveControl = None, startTime = Num 1000,
      duration = Num 10000, lat = Num (103/2), lon = Num 0, screenPos = (Num 400, Num 240),
      startScreenPos = (Num 400, Num 240), progress = Num 0, trailPoints = [(Num 400, Num 240)],
      lastTrailProgress = Num 0\<rparr> = Num 1000
   \<and> (0::real) < 10000 \<and> (6000::real) \<le> 8000
   \<and> progress (advance \<lparr>minLat = Num 51, maxLat = Num 52, minLon = Num (-1), maxLon = Num 1\<rparr> \<lparr>innerWidth = Num 800, innerHeight = Num 480\<rparr> (Num 6000)
     \<lparr>plane_id = ''4ca7b3'', callsign = ''RYR22'', country = ''Ireland'',
      heading = Num 0, color = ''#ff6b6b'', startLat = Num (103/2), startLon = Num 0,
      endLat = Num 52, endLon = Num 0, curveControl = None, startTime = Num 1000,
      duration = Num 10000, lat = Num (103/2), lon = Num 0, screenPos = (Num 400, Num 240),
      startScreenPos = (Num 400, Num 240), progress = Num 0, trailPoints = [(Num 400, Num 240)],
      lastTrailProgress = Num 0\<rparr>) = Num (1/2)
   \<and> progress (advance \<lparr>minLat = Num 51, maxLat = Num 52, minLon = Num (-1), maxLon = Num 1\<rparr> \<lparr>innerWidth = Num 800, innerHeight = Num 480\<rparr> (Num 6000)
     \<lparr>plane_id = ''4ca7b3'', callsign = ''RYR22'', country = ''Ireland'',
      heading = Num 0, color = ''#ff6b6b'', startLat = Num (103/2), startLon = Num 0,
      endLat = Num 52, endLon = Num 0, curveControl = None, startTime = Num 1000,
      duration = Num 10000, lat = Num (103/2), lon = Num 0, screenPos = (Num 400, Num 240),
      startScreenPos = (Num 400, Num 240), progress = Num 0, trailPoints = [(Num 400, Num 240)],
      lastTrailProgress = Num 0\<rparr>)
     \<le> progress (advance \<lparr>minLat = Num 51, maxLat = Num 52, minLon = Num (-1), maxLon = Num 1\<rparr> \<lparr>innerWidth = Num 800, innerHeight = Num 480\<rparr> (Num 8000)
     \<lparr>plane_id = ''4ca7b3'', callsign = ''RYR22'', country = ''Ireland'',
      heading = Num 0, color = ''#ff6b6b'', startLat = Num (103/2), startLon = Num 0,
      endLat = Num 52, endLon = Num 0, curveControl = None, startTime = Num 1000,
      duration = Num 10000, lat = Num (103/2), lon = Num 0, screenPos = (Num 400, Num 240),
      startScreenPos = (Num 400, Num 240), progress = Num 0, trailPoints = [(Num 400, Num 240)],
      lastTrailProgress = Num 0\<rparr>)
   \<and> progress (advance \<lparr>minLat = Num 51, maxLat = Num 52, minLon = Num (-1), maxLon = Num 1\<rparr> \<lparr>innerWidth = Num 800, innerHeight = Num 480\<rparr> (Num 11000)
     \<lparr>plane_id = ''4ca7b3'', callsign = ''RYR22'', country = ''Ireland'',
      heading = Num 0, color = ''#ff6b6b'', startLat = Num (103/2), startLon = Num 0,
      endLat = Num 52, endLon = Num 0, curveControl = None, startTime = Num 1000,
      duration = Num 10000, lat = Num (103/2), lon = Num 0, screenPos = (Num 400, Num 240),
      startScreenPos = (Num 400, Num 240), progress = Num 0, trailPoints = [(Num 400, Num 240)],
      lastTrailProgress = Num 0\<rparr>) = Num 1
   \<and> progress (advance \<lparr>minLat = Num 51, maxLat = Num 52, minLon = Num (-1), maxLon = Num 1\<rparr> \<lparr>innerWidth = Num 800, innerHeight = Num 480\<rparr> (Num 6000)
     \<lparr>plane_id = ''4ca7b3'', callsign = ''RYR22'', country = ''Ireland'',
      heading = Num 0, color = ''#ff6b6b'', startLat = Num (103/2), startLon = Num 0,
      endLat = Num 52, endLon = Num 0, curveControl = None, startTime = Num 1000,
      duration = Num 10000, lat = Num (103/2), lon = Num 0, screenPos = (Num 400, Num 240),
      startScreenPos = (Num 400, Num 240), progress = Num 0, trailPoints = [(Num 400, Num 240)],
      lastTrailProgress = Num 0\<rparr>) \<le> Num 1"
  using progress_monotone [where st = "\<lparr>plane_id = ''4ca7b3'', callsign = ''RYR22'', country = ''Ireland'',
      heading = Num 0, color = ''#ff6b6b'', startLat = Num (103/2), startLon = Num 0,
      endLat = Num 52, endLon = Num 0, curveControl = None, startTime = Num 1000,
      duration = Num 10000, lat = Num (103/2), lon = Num 0, screenPos = (Num 400, Num 240),
      startScreenPos = (Num 400, Num 240), progress = Num 0, trailPoints = [(Num 400, Num 240)],
      lastTrailProgress = Num 0\<rparr>"
      and ?t0.0 = 1000 and d = 10000 and b = "\<lparr>minLat = Num 51, maxLat = Num 52, minLon = Num (-1), maxLon = Num 1\<rparr>"
      and w = "\<lparr>innerWidth = Num 800, innerHeight = Num 480\<rparr>" and t = 6000 and t' = 8000]
  by auto


lemma quadraticBezier_Num:
  "quadraticBezier (Num t) (Num p0) (Num p1) (Num p2) =
     Num ((1 - t) * (1 - t) * p0 + 2 * (1 - t) * t * p1 + t * t * p2)"
  by (simp add: quadraticBezier_def)

text \<open>
  C9. For a trajectory without a control point and with finite coordinates, at the frame
  where half of the (finite, positive) duration has elapsed, the progress is \<open>0.5\<close> and
  the position set by \<open>animate\<close> is the midpoint of start and exit: the averages of the
  latitudes and of the longitudes.
\<close>

theorem straight_path_midpoint:
  assumes "curveControl st = None"
    and "startTime st = Num t0" and "duration st = Num d" and "0 < d"
    and "startLat st = Num sLat" and "startLon st = Num sLon"
    and "endLat st = Num eLat" and "endLon st = Num eLon"
  shows "progress (advance b w (Num (t0 + d / 2)) st) = Num (1 / 2)
       \<and> lat (advance b w (Num (t0 + d / 2)) st) = Num ((sLat + eLat) / 2)
       \<and> lon (advance b w (Num (t0 + d / 2)) st) = Num ((sLon + eLon) / 2)"
proof -
  have p: "Math_min ((Num (t0 + d / 2) - startTime st) / duration st) (Num 1) = Num (1 / 2)"
    using assms(2-4) by (simp add: Math_min_Num)
  have "(lat (advance b w (Num (t0 + d / 2)) st), lon (advance b w (Num (t0 + d / 2)) st))
          = (Num ((sLat + eLat) / 2), Num ((sLon + eLon) / 2))"
    unfolding position_advance p
    using assms(1,5-8) by (simp add: pathPoint_def linear_def field_simps)
  then show ?thesis
    by (simp add: progress_advance p)
qed

theorem straight_path_midpoint_witness:
  "curveControl
     \<lparr>plane_id = ''4ca7b3'', callsign = ''RYR22'', country = ''Ireland'',
      heading = Num 0, color = ''#ff6b6b'', startLat = Num (103/2), startLon = Num 0,
      endLat = Num 52, endLon = Num 0, curveControl = None, startTime = Num 1000,
      duration = Num 10000, lat = Num (103/2), lon = Num 0, screenPos = (Num 400, Num 240),
      startScreenPos = (Num 400, Num 240), progress = Num 0, trailPoints = [(Num 400, Num 240)],
      lastTrailProgress = Num 0\<rparr> = None
   \<and> (0::real) < 10000
   \<and> progress (advance \<lparr>minLat = Num 51, maxLat = Num 52, minLon = Num (-1), maxLon = Num 1\<rparr> \<lparr>innerWidth = Num 800, innerHeight = Num 480\<rparr> (Num (1000 + 10000 / 2))
     \<lparr>plane_id = ''4ca7b3'', callsign = ''RYR22'', country = ''Ireland'',
      heading = Num 0, color = ''#ff6b6b'', startLat = Num (103/2), startLon = Num 0,
      endLat = Num 52, endLon = Num 0, curveControl = None, startTime = Num 1000,
      duration = Num 10000, lat = Num (103/2), lon = Num 0, screenPos = (Num 400, Num 240),
      startScreenPos = (Num 400, Num 240), progress = Num 0, trailPoints = [(Num 400, Num 240)],
      lastTrailProgress = Num 0\<rparr>) = Num (1 / 2)
   \<and> lat (advance \<lparr>minLat = Num 51, maxLat = Num 52, minLon = Num (-1), maxLon = Num 1\<rparr> \<lparr>innerWidth = Num 800, innerHeight = Num 480\<rparr> (Num (1000 + 10000 / 2))
     \<lparr>plane_id = ''4ca7b3'', callsign = ''RYR22'', country = ''Ireland'',
      heading = Num 0, color = ''#ff6b6b'', startLat = Num (103/2), startLon = Num 0,
      endLat = Num 52, endLon = Num 0, curveControl = None, startTime = Num 1000,
      duration = Num 10000, lat = Num (103/2), lon = Num 0, screenPos = (Num 400, Num 240),
      startScreenPos = (Num 400, Num 240), progress = Num 0, trailPoints = [(Num 400, Num 240)],
      lastTrailProgress = Num 0\<rparr>) = Num (207 / 4)
   \<and> lon (advance \<lparr>minLat = Num 51, maxLat = Num 52, minLon = Num (-1), maxLon = Num 1\<rparr> \<lparr>innerWidth = Num 800, innerHeight = Num 480\<rparr> (Num (1000 + 10000 / 2))
     \<lparr>plane_id = ''4ca7b3'', callsign = ''RYR22'', country = ''Ireland'',
      heading = Num 0, color = ''#ff6b6b'', startLat = Num (103/2), startLon = Num 0,
      endLat = Num 52, endLon = Num 0, curveControl = None, startTime = Num 1000,
      duration = Num 10000, lat = Num (103/2), lon = Num 0, screenPos = (Num 400, Num 240),
      startScreenPos = (Num 400, Num 240), progress = Num 0, trailPoints = [(Num 400, Num 240)],
      lastTrailProgress = Num 0\<rparr>) = Num 0"
  using straight_path_midpoint [where st = "\<lparr>plane_id = ''4ca7b3'', callsign = ''RYR22'', country = ''Ireland'',
      heading = Num 0, color = ''#ff6b6b'', startLat = Num (103/2), startLon = Num 0,
      endLat = Num 52, endLon = Num 0, curveControl = None, startTime = Num 1000,
      duration = Num 10000, lat = Num (103/2), lon = Num 0, screenPos = (Num 400, Num 240),
      startScreenPos = (Num 400, Num 240), progress = Num 0, trailPoints = [(Num 400, Num 240)],
      lastTrailProgress = Num 0\<rparr>"
      and ?t0.0 = 1000 and d = 10000 and sLat = "103/2" and sLon = 0 and eLat = 52 and eLon = 0
      and b = "\<lparr>minLat = Num 51, maxLat = Num 52, minLon = Num (-1), maxLon = Num 1\<rparr>" and w = "\<lparr>innerWidth = Num 800, innerHeight = Num 480\<rparr>"]
  by simp

lemma advance_endpoints:
  assumes "curveControl st = None \<or> curveControl st = Some (Num cLat, Num cLon)"
    and "startTime st = Num t0" and "duration st = Num d" and "0 < d"
    and "startLat st = Num sLat" and "startLon st = Num sLon"
    and "endLat st = Num eLat" and "endLon st = Num eLon"
  shows "quadraticBezier (Num 0) (Num p0) (Num p1) (Num p2) = Num p0
       \<and> quadraticBezier (Num 1) (Num p0) (Num p1) (Num p2) = Num p2
       \<and> lat (advance b w (Num t0) st) = startLat st
       \<and> lon (advance b w (Num t0) st) = startLon st
       \<and> (t0 + d \<le> t \<longrightarrow> lat (advance b w (Num t) st) = endLat st
                        \<and> lon (advance b w (Num t) st) = endLon st)"
proof -
  have p0: "Math_min ((Num t0 - startTime st) / duration st) (Num 1) = Num 0"
    using assms(2-4) by (simp add: Math_min_Num)
  have p1: "Math_min ((Num t - startTime st) / duration st) (Num 1) = Num 1" if "t0 + d \<le> t"
  proof -
    have "1 \<le> (t - t0) / d" using that assms(4) by (simp add: field_simps)
    then show ?thesis using assms(2-4) by (simp add: Math_min_Num)
  qed
  have start: "(lat (advance b w (Num t0) st), lon (advance b w (Num t0) st))
                 = (startLat st, startLon st)"
    unfolding position_advance p0
    using assms(1,5-8) by (auto simp: pathPoint_def linear_def quadraticBezier_Num)
  have finish: "(lat (advance b w (Num t) st), lon (advance b w (Num t) st))
                 = (endLat st, endLon st)" if "t0 + d \<le> t"
    unfolding position_advance p1 [OF that]
    using assms(1,5-8) by (auto simp: pathPoint_def linear_def quadraticBezier_Num)
  show ?thesis
    using start finish by (simp add: quadraticBezier_Num)
qed

section \<open>Reconciliation\<close>

lemma Map_get_newPlane_other:
  "k \<noteq> data_id pd \<Longrightarrow>
   Map_get (planes (newPlane b w rnd now pd sLat sLon a)) k = Map_get (planes a) k"
  by (simp add: newPlane_def Let_def Map_get_Map_set split: prod.split)

lemma processPlanes_keeps:
  "Map_get (planes a) k = Some st \<Longrightarrow>
   \<exists>cs co. Map_get (planes (snd (processPlanes b w rnd now i ps a))) k
             = Some (st\<lparr>callsign := cs, country := co\<rparr>)"
proof (induction ps arbitrary: a st i)
  case Nil
  have "st = st\<lparr>callsign := callsign st, country := country st\<rparr>" by simp
  then show ?case using Nil by (metis processPlanes.simps(1) snd_conv)
next
  case (Cons pd rest)
  show ?case
  proof (cases "Map_get (planes a) (data_id pd)")
    case None
    then have other: "k \<noteq> data_id pd" using Cons.prems by auto
    show ?thesis
    proof (cases "position pd")
      case no_pos: None
      have "st = st\<lparr>callsign := callsign st, country := country st\<rparr>" by simp
      moreover have "snd (processPlanes b w rnd now i (pd # rest) a) = a"
        using None no_pos by simp
      ultimately show ?thesis using Cons.prems by metis
    next
      case (Some pos)
      obtain sLat sLon where pos: "pos = (sLat, sLon)" by (cases pos)
      have "Map_get (planes (newPlane b w rnd (now i) pd sLat sLon a)) k = Some st"
        using other Cons.prems by (simp add: Map_get_newPlane_other)
      from Cons.IH [OF this] show ?thesis
        using None Some pos by simp
    qed
  next
    case (Some state)
    define a1 where "a1 = a\<lparr>planes := Map_set (planes a) (data_id pd)
        (state\<lparr>callsign := data_callsign pd, country := data_country pd\<rparr>)\<rparr>"
    define st1 where "st1 = (if k = data_id pd
        then st\<lparr>callsign := data_callsign pd, country := data_country pd\<rparr> else st)"
    have step: "snd (processPlanes b w rnd now i (pd # rest) a)
                  = snd (processPlanes b w rnd now (i + 1) rest a1)"
      using Some by (simp add: a1_def)
    have "Map_get (planes a1) k = Some st1"
      using Some Cons.prems by (auto simp: a1_def st1_def Map_get_Map_set)
    from Cons.IH [OF this, of "i + 1"]
    obtain cs co where
      "Map_get (planes (snd (processPlanes b w rnd now (i + 1) rest a1))) k
         = Some (st1\<lparr>callsign := cs, country := co\<rparr>)"
      by blast
    moreover have "st1\<lparr>callsign := cs, country := co\<rparr> = st\<lparr>callsign := cs, country := co\<rparr>"
      by (simp add: st1_def)
    ultimately show ?thesis
      unfolding step by metis
  qed
qed

lemma planes_onFetchError: "planes (onFetchError msg a) = planes a"
  by (simp add: onFetchError_def showOverlay_def)

lemma planes_fetchFlightData:
  "planes (fetchFlightData b w rnd now (Planes ps) a) =
     planes (snd (processPlanes b w rnd now 0 ps
        (if \<not> isConnected a then (hideOverlay a)\<lparr>isConnected := True\<rparr> else a)))"
proof -
  define a0 where "a0 = (if \<not> isConnected a then (hideOverlay a)\<lparr>isConnected := True\<rparr> else a)"
  obtain ok a' where r: "processPlanes b w rnd now 0 ps a0 = (ok, a')"
    by (cases "processPlanes b w rnd now 0 ps a0")
  have "fetchFlightData b w rnd now (Planes ps) a
          = (if ok then a' else onFetchError ''Reconnecting...'' a')"
    using r unfolding fetchFlightData_def a0_def by (cases ok) (simp_all add: Let_def)
  then show ?thesis
    using r unfolding a0_def by (simp add: planes_onFetchError)
qed

lemma fetchFlightData_keeps:
  assumes "Map_get (planes a) k = Some st"
  shows "\<exists>cs co. Map_get (planes (fetchFlightData b w rnd now response a)) k
                  = Some (st\<lparr>callsign := cs, country := co\<rparr>)"
proof -
  have same: "st = st\<lparr>callsign := callsign st, country := country st\<rparr>" by simp
  show ?thesis
  proof (cases response)
    case Failed
    then have "planes (fetchFlightData b w rnd now response a) = planes a"
      by (simp add: fetchFlightData_def planes_onFetchError)
    then show ?thesis using assms same by metis
  next
    case ErrorStatus
    then have "planes (fetchFlightData b w rnd now response a) = planes a"
      by (simp add: fetchFlightData_def planes_onFetchError)
    then show ?thesis using assms same by metis
  next
    case NoPlanes
    then have "planes (fetchFlightData b w rnd now response a) = planes a"
      by (simp add: fetchFlightData_def planes_onFetchError hideOverlay_def)
    then show ?thesis using assms same by metis
  next
    case (Planes ps)
    define a0 where "a0 = (if \<not> isConnected a then (hideOverlay a)\<lparr>isConnected := True\<rparr> else a)"
    have "Map_get (planes a0) k = Some st"
      using assms by (simp add: a0_def hideOverlay_def)
    from processPlanes_keeps [OF this, of b w rnd now 0 ps]
    show ?thesis
      unfolding Planes planes_fetchFlightData a0_def .
  qed
qed

text \<open>
  C3. For an id tracked in the registry, \<open>fetchFlightData\<close> with any response (any
  snapshot, whether or not it has samples of that id) leaves the id tracked, with the
  same start point, exit point, control point, start time and duration; the new state
  differs from the old one in \<open>callsign\<close> and \<open>country\<close> (the label) at most. The color
  is not overwritten either.
\<close>

theorem no_midflight_rerouting:
  assumes "Map_get (planes a) k = Some st"
  shows "\<exists>st'. Map_get (planes (fetchFlightData b w rnd now response a)) k = Some st'
       \<and> startLat st' = startLat st \<and> startLon st' = startLon st
       \<and> endLat st' = endLat st \<and> endLon st' = endLon st
       \<and> curveControl st' = curveControl st
       \<and> startTime st' = startTime st \<and> duration st' = duration st
       \<and> color st' = color st
       \<and> (\<exists>cs co. st' = st\<lparr>callsign := cs, country := co\<rparr>)"
proof -
  obtain cs co where
    "Map_get (planes (fetchFlightData b w rnd now response a)) k
       = Some (st\<lparr>callsign := cs, country := co\<rparr>)"
    using fetchFlightData_keeps [OF assms] by blast
  then show ?thesis by auto
qed


theorem no_midflight_rerouting_witness:
  "Map_get (planes
      \<lparr>planes = [(''4ca7b3'',
         \<lparr>plane_id = ''4ca7b3'', callsign = ''RYR22'', country = ''Ireland'',
         heading = Num 0, color = ''#ff6b6b'', startLat = Num (103/2), startLon = Num 0,
         endLat = Num 52, endLon = Num 0, curveControl = None, startTime = Num 1000,
         duration = Num 10000, lat = Num (103/2), lon = Num 0, screenPos = (Num 400, Num 240),
         startScreenPos = (Num 400, Num 240), progress = Num 0, trailPoints = [(Num 400, Num 240)],
         lastTrailProgress = Num 0\<rparr>)],
       isConnected = True, overlayText = [], overlayVisible = False,
       planeElements = [''4ca7b3''], countText = 1, trailsCanvas = [],
       lastAnimateTime = Num 0, randomCalls = 0\<rparr>) ''4ca7b3''
     = Some \<lparr>plane_id = ''4ca7b3'', callsign = ''RYR22'', country = ''Ireland'',
         heading = Num 0, color = ''#ff6b6b'', startLat = Num (103/2), startLon = Num 0,
         endLat = Num 52, endLon = Num 0, curveControl = None, startTime = Num 1000,
         duration = Num 10000, lat = Num (103/2), lon = Num 0, screenPos = (Num 400, Num 240),
         startScreenPos = (Num 400, Num 240), progress = Num 0, trailPoints = [(Num 400, Num 240)],
         lastTrailProgress = Num 0\<rparr>
   \<and> (\<exists>st'. Map_get (planes (fetchFlightData \<lparr>minLat = Num 51, maxLat = Num 52, minLon = Num (-1), maxLon = Num 1\<rparr> \<lparr>innerWidth = Num 800, innerHeight = Num 480\<rparr> (\<lambda>k. 7/10) (\<lambda>i. Num 5000)
      (Planes [\<lparr>data_id = ''4ca7b3'', data_callsign = ''RYR22X'', data_country = ''Malta'',
       position = Some (Num (517/10), Num (1/2)), data_heading = Num 90,
       velocity_mps = Some (Num 250), data_color = ''#4ecdc4''\<rparr>])
      \<lparr>planes = [(''4ca7b3'',
         \<lparr>plane_id = ''4ca7b3'', callsign = ''RYR22'', country = ''Ireland'',
         heading = Num 0, color = ''#ff6b6b'', startLat = Num (103/2), startLon = Num 0,
         endLat = Num 52, endLon = Num 0, curveControl = None, startTime = Num 1000,
         duration = Num 10000, lat = Num (103/2), lon = Num 0, screenPos = (Num 400, Num 240),
         startScreenPos = (Num 400, Num 240), progress = Num 0, trailPoints = [(Num 400, Num 240)],
         lastTrailProgress = Num 0\<rparr>)],
       isConnected = True, overlayText = [], overlayVisible = False,
       planeElements = [''4ca7b3''], countText = 1, trailsCanvas = [],
       lastAnimateTime = Num 0, randomCalls = 0\<rparr>)) ''4ca7b3'' = Some st'
     \<and> startLat st' = Num (103/2) \<and> startLon st' = Num 0
     \<and> endLat st' = Num 52 \<and> endLon st' = Num 0 \<and> curveControl st' = None
     \<and> startTime st' = Num 1000 \<and> duration st' = Num 10000 \<and> color st' = ''#ff6b6b''
     \<and> (\<exists>cs co. st' = \<lparr>plane_id = ''4ca7b3'', callsign = ''RYR22'', country = ''Ireland'',
         heading = Num 0, color = ''#ff6b6b'', startLat = Num (103/2), startLon = Num 0,
         endLat = Num 52, endLon = Num 0, curveControl = None, startTime = Num 1000,
         duration = Num 10000, lat = Num (103/2), lon = Num 0, screenPos = (Num 400, Num 240),
         startScreenPos = (Num 400, Num 240), progress = Num 0, trailPoints = [(Num 400, Num 240)],
         lastTrailProgress = Num 0\<rparr>\<lparr>callsign := cs, country := co\<rparr>))"
  using no_midflight_rerouting [where a = "\<lparr>planes = [(''4ca7b3'',
         \<lparr>plane_id = ''4ca7b3'', callsign = ''RYR22'', country = ''Ireland'',
         heading = Num 0, color = ''#ff6b6b'', startLat = Num (103/2), startLon = Num 0,
         endLat = Num 52, endLon = Num 0, curveControl = None, startTime = Num 1000,
         duration = Num 10000, lat = Num (103/2), lon = Num 0, screenPos = (Num 400, Num 240),
         startScreenPos = (Num 400, Num 240), progress = Num 0, trailPoints = [(Num 400, Num 240)],
         lastTrailProgress = Num 0\<rparr>)],
       isConnected = True, overlayText = [], overlayVisible = False,
       planeElements = [''4ca7b3''], countText = 1, trailsCanvas = [],
       lastAnimateTime = Num 0, randomCalls = 0\<rparr>"
      and k = "''4ca7b3''"
      and st = "\<lparr>plane_id = ''4ca7b3'', callsign = ''RYR22'', country = ''Ireland'',
         heading = Num 0, color = ''#ff6b6b'', startLat = Num (103/2), startLon = Num 0,
         endLat = Num 52, endLon = Num 0, curveControl = None, startTime = Num 1000,
         duration = Num 10000, lat = Num (103/2), lon = Num 0, screenPos = (Num 400, Num 240),
         startScreenPos = (Num 400, Num 240), progress = Num 0, trailPoints = [(Num 400, Num 240)],
         lastTrailProgress = Num 0\<rparr>"
      and b = "\<lparr>minLat = Num 51, maxLat = Num 52, minLon = Num (-1), maxLon = Num 1\<rparr>" and w = "\<lparr>innerWidth = Num 800, innerHeight = Num 480\<rparr>" and rnd = "\<lambda>k. 7/10" and now = "\<lambda>i. Num 5000"
      and response = "Planes [\<lparr>data_id = ''4ca7b3'', data_callsign = ''RYR22X'', data_country = ''Malta'',
       position = Some (Num (517/10), Num (1/2)), data_heading = Num 90,
       velocity_mps = Some (Num 250), data_color = ''#4ecdc4''\<rparr>]"]
  by (simp add: Map_get_def)

section \<open>Removal on completion\<close>

lemma fold_Map_delete: "fold (\<lambda>k m. Map_delete m k) ks m = filter (\<lambda>e. fst e \<notin> set ks) m"
proof (induction ks arbitrary: m)
  case Nil
  then show ?case by simp
next
  case (Cons k ks)
  have "fold (\<lambda>k m. Map_delete m k) (k # ks) m = filter (\<lambda>e. fst e \<notin> set ks) (Map_delete m k)"
    by (simp add: Cons.IH)
  also have "\<dots> = filter (\<lambda>e. fst e \<notin> set (k # ks)) m"
    by (auto simp: Map_delete_def intro: filter_cong)
  finally show ?case .
qed

lemma Map_get_filter_keys:
  "Map_get (filter (\<lambda>e. fst e \<notin> S) m) k = (if k \<in> S then None else Map_get m k)"
  by (induction m) (auto simp: Map_get_def)

lemma Map_get_map_values:
  "Map_get (map (\<lambda>e. (fst e, f (snd e))) m) k = map_option f (Map_get m k)"
  by (induction m) (auto simp: Map_get_def)

lemma Map_get_Some_iff:
  "distinct (map fst m) \<Longrightarrow> (Map_get m k = Some v) = ((k, v) \<in> set m)"
  by (simp add: Map_get_def)

lemma completed_iff:
  "(Num 1 \<le> Math_min x (Num 1)) = (Math_min x (Num 1) = Num 1)"
  by (cases x) (auto simp: less_eq_jsnum_def)

lemma planes_animate:
  assumes "\<not> currentTime - lastAnimateTime a < FRAME_INTERVAL"
  shows "planes (animate b w currentTime a) =
     filter (\<lambda>e. fst e \<notin> set (map fst (filter (\<lambda>e. Num 1 \<le> progress (snd e))
                 (map (\<lambda>e. (fst e, advance b w currentTime (snd e))) (planes a)))))
       (map (\<lambda>e. (fst e, advance b w currentTime (snd e))) (planes a))"
  using assms
  by (simp add: animate_def Let_def fold_Map_delete updateCount_def drawTrails_def
      ENABLE_TRAILS_def)

lemma Map_get_animate:
  assumes run: "\<not> currentTime - lastAnimateTime a < FRAME_INTERVAL"
    and dist: "distinct (map fst (planes a))"
  shows "Map_get (planes (animate b w currentTime a)) k =
     (case Map_get (planes a) k of
        None \<Rightarrow> None
      | Some st \<Rightarrow> if progress (advance b w currentTime st) = Num 1 then None
                  else Some (advance b w currentTime st))"
proof -
  define adv where "adv = map (\<lambda>e. (fst e, advance b w currentTime (snd e))) (planes a)"
  define R where "R = set (map fst (filter (\<lambda>e. Num 1 \<le> progress (snd e)) adv))"
  have keys: "map fst adv = map fst (planes a)"
    by (simp add: adv_def comp_def)
  then have dadv: "distinct (map fst adv)" using dist by simp
  have get_adv: "Map_get adv k = map_option (advance b w currentTime) (Map_get (planes a) k)"
    unfolding adv_def by (rule Map_get_map_values)
  have inR: "k \<in> R \<longleftrightarrow> (\<exists>st'. Map_get adv k = Some st' \<and> Num 1 \<le> progress st')"
    unfolding R_def by (auto simp: Map_get_Some_iff [OF dadv] image_iff)
  have "Map_get (planes (animate b w currentTime a)) k
          = (if k \<in> R then None else Map_get adv k)"
    unfolding planes_animate [OF run] R_def adv_def by (rule Map_get_filter_keys)
  then show ?thesis
    by (auto simp: inR get_adv progress_advance completed_iff split: option.split)
qed

lemma advance_keeps:
  "startLat (advance b w t st) = startLat st \<and> startLon (advance b w t st) = startLon st
   \<and> endLat (advance b w t st) = endLat st \<and> endLon (advance b w t st) = endLon st
   \<and> curveControl (advance b w t st) = curveControl st
   \<and> startTime (advance b w t st) = startTime st \<and> duration (advance b w t st) = duration st"
  by (simp add: advance_def Let_def split: option.split prod.split)


lemma keys_Map_set: "fst ` set (Map_set m k v) = insert k (fst ` set m)"
proof (induction m)
  case Nil
  then show ?case by simp
next
  case (Cons e m)
  obtain k' v' where e: "e = (k', v')" by (cases e)
  show ?case
  proof (cases "k' = k")
    case True
    then show ?thesis by (simp add: e)
  next
    case False
    then show ?thesis by (simp add: e Cons.IH insert_commute)
  qed
qed

lemma distinct_Map_set: "distinct (map fst m) \<Longrightarrow> distinct (map fst (Map_set m k v))"
  by (induction m) (auto simp: keys_Map_set)

lemma distinct_newPlane:
  "distinct (map fst (planes a)) \<Longrightarrow>
   distinct (map fst (planes (newPlane b w rnd now pd sLat sLon a)))"
  by (simp add: newPlane_def Let_def distinct_Map_set split: prod.split)

lemma distinct_processPlanes:
  "distinct (map fst (planes a)) \<Longrightarrow>
   distinct (map fst (planes (snd (processPlanes b w rnd now i ps a))))"
proof (induction ps arbitrary: a i)
  case Nil
  then show ?case by simp
next
  case (Cons pd rest)
  show ?case
  proof (cases "Map_get (planes a) (data_id pd)")
    case None
    show ?thesis
    proof (cases "position pd")
      case no_pos: None
      then show ?thesis using None Cons.prems by simp
    next
      case (Some pos)
      obtain sLat sLon where pos: "pos = (sLat, sLon)" by (cases pos)
      show ?thesis
        using None Some pos Cons.IH [OF distinct_newPlane [OF Cons.prems]] by simp
    qed
  next
    case (Some state)
    have "distinct (map fst (planes (a\<lparr>planes := Map_set (planes a) (data_id pd)
        (state\<lparr>callsign := data_callsign pd, country := data_country pd\<rparr>)\<rparr>)))"
      using Cons.prems by (simp add: distinct_Map_set)
    from Cons.IH [OF this] show ?thesis
      using Some by simp
  qed
qed

text \<open>The keys of the registry stay distinct, as the keys of a \<open>Map\<close> are.\<close>

lemma distinct_registry:
  assumes "distinct (map fst (planes a))"
  shows "distinct (map fst (planes (fetchFlightData b w rnd now response a)))"
    and "distinct (map fst (planes (animate b w currentTime a)))"
proof -
  show "distinct (map fst (planes (fetchFlightData b w rnd now response a)))"
  proof (cases response)
    case (Planes ps)
    have "distinct (map fst (planes
        (if \<not> isConnected a then (hideOverlay a)\<lparr>isConnected := True\<rparr> else a)))"
      using assms by (simp add: hideOverlay_def)
    from distinct_processPlanes [OF this] show ?thesis
      unfolding Planes planes_fetchFlightData .
  qed (simp_all add: fetchFlightData_def planes_onFetchError hideOverlay_def assms)
  show "distinct (map fst (planes (animate b w currentTime a)))"
  proof (cases "currentTime - lastAnimateTime a < FRAME_INTERVAL")
    case True
    then show ?thesis using assms by (simp add: animate_def Let_def)
  next
    case False
    have "distinct (map fst (map (\<lambda>e. (fst e, advance b w currentTime (snd e))) (planes a)))"
      using assms by (simp add: comp_def)
    then show ?thesis
      unfolding planes_animate [OF False] by (rule distinct_map_filter)
  qed
qed

text \<open>
  C5. In a frame that \<open>animate\<close> runs, the registry after the call has, under an id,
  the advanced state of the plane that was under it, unless the progress just computed
  is \<open>1\<close>: then, and only then, the id is gone after the same call. A call within
  \<open>FRAME_INTERVAL\<close> of the last frame computes no progress and changes nothing.
  \<open>fetchFlightData\<close> removes no id, whatever the response and whether or not the
  snapshot has the id: the plane stays tracked with the exit point, start time, duration
  and progress it had, and \<open>animate\<close> keeps moving it toward that exit point.
\<close>

theorem removal_only_on_completion:
  assumes "distinct (map fst (planes a))"
  shows "(\<not> currentTime - lastAnimateTime a < FRAME_INTERVAL \<longrightarrow>
            Map_get (planes (animate b w currentTime a)) k =
              (case Map_get (planes a) k of
                 None \<Rightarrow> None
               | Some st \<Rightarrow> if progress (advance b w currentTime st) = Num 1 then None
                           else Some (advance b w currentTime st)))
       \<and> (currentTime - lastAnimateTime a < FRAME_INTERVAL \<longrightarrow> animate b w currentTime a = a)
       \<and> (Map_get (planes a) k = Some st \<longrightarrow>
            (\<exists>st'. Map_get (planes (fetchFlightData b w rnd now response a)) k = Some st'
                \<and> endLat st' = endLat st \<and> endLon st' = endLon st
                \<and> startTime st' = startTime st \<and> duration st' = duration st
                \<and> progress st' = progress st)
          \<and> endLat (advance b w currentTime st) = endLat st
          \<and> endLon (advance b w currentTime st) = endLon st)"
proof (intro conjI impI)
  assume "\<not> currentTime - lastAnimateTime a < FRAME_INTERVAL"
  then show "Map_get (planes (animate b w currentTime a)) k =
              (case Map_get (planes a) k of
                 None \<Rightarrow> None
               | Some st \<Rightarrow> if progress (advance b w currentTime st) = Num 1 then None
                           else Some (advance b w currentTime st))"
    using assms by (rule Map_get_animate)
next
  assume "currentTime - lastAnimateTime a < FRAME_INTERVAL"
  then show "animate b w currentTime a = a"
    by (simp add: animate_def Let_def)
next
  assume "Map_get (planes a) k = Some st"
  from fetchFlightData_keeps [OF this]
  obtain cs co where
    "Map_get (planes (fetchFlightData b w rnd now response a)) k
       = Some (st\<lparr>callsign := cs, country := co\<rparr>)"
    by blast
  then show "\<exists>st'. Map_get (planes (fetchFlightData b w rnd now response a)) k = Some st'
                \<and> endLat st' = endLat st \<and> endLon st' = endLon st
                \<and> startTime st' = startTime st \<and> duration st' = duration st
                \<and> progress st' = progress st"
    by auto
next
  show "endLat (advance b w currentTime st) = endLat st"
    by (simp add: advance_keeps)
next
  show "endLon (advance b w currentTime st) = endLon st"
    by (simp add: advance_keeps)
qed

theorem removal_only_on_completion_witness:
  "distinct (map fst (planes
      \<lparr>planes = [(''4ca7b3'',
         \<lparr>plane_id = ''4ca7b3'', callsign = ''RYR22'', country = ''Ireland'',
         heading = Num 0, color = ''#ff6b6b'', startLat = Num (103/2), startLon = Num 0,
         endLat = Num 52, endLon = Num 0, curveControl = None, startTime = Num 1000,
         duration = Num 10000, lat = Num (103/2), lon = Num 0, screenPos = (Num 400, Num 240),
         startScreenPos = (Num 400, Num 240), progress = Num 0, trailPoints = [(Num 400, Num 240)],
         lastTrailProgress = Num 0\<rparr>)],
       isConnected = True, overlayText = [], overlayVisible = False,
       planeElements = [''4ca7b3''], countText = 1, trailsCanvas = [],
       lastAnimateTime = Num 0, randomCalls = 0\<rparr>))
   \<and> \<not> Num 12000 - lastAnimateTime
      \<lparr>planes = [(''4ca7b3'',
         \<lparr>plane_id = ''4ca7b3'', callsign = ''RYR22'', country = ''Ireland'',
         heading = Num 0, color = ''#ff6b6b'', startLat = Num (103/2), startLon = Num 0,
         endLat = Num 52, endLon = Num 0, curveControl = None, startTime = Num 1000,
         duration = Num 10000, lat = Num (103/2), lon = Num 0, screenPos = (Num 400, Num 240),
         startScreenPos = (Num 400, Num 240), progress = Num 0, trailPoints = [(Num 400, Num 240)],
         lastTrailProgress = Num 0\<rparr>)],
       isConnected = True, overlayText = [], overlayVisible = False,
       planeElements = [''4ca7b3''], countText = 1, trailsCanvas = [],
       lastAnimateTime = Num 0, randomCalls = 0\<rparr> < FRAME_INTERVAL
   \<and> Map_get (planes (animate \<lparr>minLat = Num 51, maxLat = Num 52, minLon = Num (-1), maxLon = Num 1\<rparr> \<lparr>innerWidth = Num 800, innerHeight = Num 480\<rparr> (Num 12000)
      \<lparr>planes = [(''4ca7b3'',
         \<lparr>plane_id = ''4ca7b3'', callsign = ''RYR22'', country = ''Ireland'',
         heading = Num 0, color = ''#ff6b6b'', startLat = Num (103/2), startLon = Num 0,
         endLat = Num 52, endLon = Num 0, curveControl = None, startTime = Num 1000,
         duration = Num 10000, lat = Num (103/2), lon = Num 0, screenPos = (Num 400, Num 240),
         startScreenPos = (Num 400, Num 240), progress = Num 0, trailPoints = [(Num 400, Num 240)],
         lastTrailProgress = Num 0\<rparr>)],
       isConnected = True, overlayText = [], overlayVisible = False,
       planeElements = [''4ca7b3''], countText = 1, trailsCanvas = [],
       lastAnimateTime = Num 0, randomCalls = 0\<rparr>)) ''4ca7b3'' = None
   \<and> Num 20 - lastAnimateTime
      \<lparr>planes = [(''4ca7b3'',
         \<lparr>plane_id = ''4ca7b3'', callsign = ''RYR22'', country = ''Ireland'',
         heading = Num 0, color = ''#ff6b6b'', startLat = Num (103/2), startLon = Num 0,
         endLat = Num 52, endLon = Num 0, curveControl = None, startTime = Num 1000,
         duration = Num 10000, lat = Num (103/2), lon = Num 0, screenPos = (Num 400, Num 240),
         startScreenPos = (Num 400, Num 240), progress = Num 0, trailPoints = [(Num 400, Num 240)],
         lastTrailProgress = Num 0\<rparr>)],
       isConnected = True, overlayText = [], overlayVisible = False,
       planeElements = [''4ca7b3''], countText = 1, trailsCanvas = [],
       lastAnimateTime = Num 0, randomCalls = 0\<rparr> < FRAME_INTERVAL
   \<and> animate \<lparr>minLat = Num 51, maxLat = Num 52, minLon = Num (-1), maxLon = Num 1\<rparr> \<lparr>innerWidth = Num 800, innerHeight = Num 480\<rparr> (Num 20)
      \<lparr>planes = [(''4ca7b3'',
         \<lparr>plane_id = ''4ca7b3'', callsign = ''RYR22'', country = ''Ireland'',
         heading = Num 0, color = ''#ff6b6b'', startLat = Num (103/2), startLon = Num 0,
         endLat = Num 52, endLon = Num 0, curveControl = None, startTime = Num 1000,
         duration = Num 10000, lat = Num (103/2), lon = Num 0, screenPos = (Num 400, Num 240),
         startScreenPos = (Num 400, Num 240), progress = Num 0, trailPoints = [(Num 400, Num 240)],
         lastTrailProgress = Num 0\<rparr>)],
       isConnected = True, overlayText = [], overlayVisible = False,
       planeElements = [''4ca7b3''], countText = 1, trailsCanvas = [],
       lastAnimateTime = Num 0, randomCalls = 0\<rparr>
     = \<lparr>planes = [(''4ca7b3'',
         \<lparr>plane_id = ''4ca7b3'', callsign = ''RYR22'', country = ''Ireland'',
         heading = Num 0, color = ''#ff6b6b'', startLat = Num (103/2), startLon = Num 0,
         endLat = Num 52, endLon = Num 0, curveControl = None, startTime = Num 1000,
         duration = Num 10000, lat = Num (103/2), lon = Num 0, screenPos = (Num 400, Num 240),
         startScreenPos = (Num 400, Num 240), progress = Num 0, trailPoints = [(Num 400, Num 240)],
         lastTrailProgress = Num 0\<rparr>)],
       isConnected = True, overlayText = [], overlayVisible = False,
       planeElements = [''4ca7b3''], countText = 1, trailsCanvas = [],
       lastAnimateTime = Num 0, randomCalls = 0\<rparr>
   \<and> Map_get (planes
      \<lparr>planes = [(''4ca7b3'',
         \<lparr>plane_id = ''4ca7b3'', callsign = ''RYR22'', country = ''Ireland'',
         heading = Num 0, color = ''#ff6b6b'', startLat = Num (103/2), startLon = Num 0,
         endLat = Num 52, endLon = Num 0, curveControl = None, startTime = Num 1000,
         duration = Num 10000, lat = Num (103/2), lon = Num 0, screenPos = (Num 400, Num 240),
         startScreenPos = (Num 400, Num 240), progress = Num 0, trailPoints = [(Num 400, Num 240)],
         lastTrailProgress = Num 0\<rparr>)],
       isConnected = True, overlayText = [], overlayVisible = False,
       planeElements = [''4ca7b3''], countText = 1, trailsCanvas = [],
       lastAnimateTime = Num 0, randomCalls = 0\<rparr>) ''4ca7b3''
     = Some \<lparr>plane_id = ''4ca7b3'', callsign = ''RYR22'', country = ''Ireland'',
         heading = Num 0, color = ''#ff6b6b'', startLat = Num (103/2), startLon = Num 0,
         endLat = Num 52, endLon = Num 0, curveControl = None, startTime = Num 1000,
         duration = Num 10000, lat = Num (103/2), lon = Num 0, screenPos = (Num 400, Num 240),
         startScreenPos = (Num 400, Num 240), progress = Num 0, trailPoints = [(Num 400, Num 240)],
         lastTrailProgress = Num 0\<rparr>
   \<and> (\<exists>st'. Map_get (planes (fetchFlightData \<lparr>minLat = Num 51, maxLat = Num 52, minLon = Num (-1), maxLon = Num 1\<rparr> \<lparr>innerWidth = Num 800, innerHeight = Num 480\<rparr> (\<lambda>k. 7/10) (\<lambda>i. Num 5000) (Planes [])
      \<lparr>planes = [(''4ca7b3'',
         \<lparr>plane_id = ''4ca7b3'', callsign = ''RYR22'', country = ''Ireland'',
         heading = Num 0, color = ''#ff6b6b'', startLat = Num (103/2), startLon = Num 0,
         endLat = Num 52, endLon = Num 0, curveControl = None, startTime = Num 1000,
         duration = Num 10000, lat = Num (103/2), lon = Num 0, screenPos = (Num 400, Num 240),
         startScreenPos = (Num 400, Num 240), progress = Num 0, trailPoints = [(Num 400, Num 240)],
         lastTrailProgress = Num 0\<rparr>)],
       isConnected = True, overlayText = [], overlayVisible = False,
       planeElements = [''4ca7b3''], countText = 1, trailsCanvas = [],
       lastAnimateTime = Num 0, randomCalls = 0\<rparr>)) ''4ca7b3'' = Some st'
      \<and> endLat st' = Num 52 \<and> endLon st' = Num 0
      \<and> startTime st' = Num 1000 \<and> duration st' = Num 10000 \<and> progress st' = Num 0)"
  using removal_only_on_completion [where a = "\<lparr>planes = [(''4ca7b3'',
         \<lparr>plane_id = ''4ca7b3'', callsign = ''RYR22'', country = ''Ireland'',
         heading = Num 0, color = ''#ff6b6b'', startLat = Num (103/2), startLon = Num 0,
         endLat = Num 52, endLon = Num 0, curveControl = None, startTime = Num 1000,
         duration = Num 10000, lat = Num (103/2), lon = Num 0, screenPos = (Num 400, Num 240),
         startScreenPos = (Num 400, Num 240), progress = Num 0, trailPoints = [(Num 400, Num 240)],
         lastTrailProgress = Num 0\<rparr>)],
       isConnected = True, overlayText = [], overlayVisible = False,
       planeElements = [''4ca7b3''], countText = 1, trailsCanvas = [],
       lastAnimateTime = Num 0, randomCalls = 0\<rparr>"
      and currentTime = "Num 12000" and k = "''4ca7b3''"
      and st = "\<lparr>plane_id = ''4ca7b3'', callsign = ''RYR22'', country = ''Ireland'',
         heading = Num 0, color = ''#ff6b6b'', startLat = Num (103/2), startLon = Num 0,
         endLat = Num 52, endLon = Num 0, curveControl = None, startTime = Num 1000,
         duration = Num 10000, lat = Num (103/2), lon = Num 0, screenPos = (Num 400, Num 240),
         startScreenPos = (Num 400, Num 240), progress = Num 0, trailPoints = [(Num 400, Num 240)],
         lastTrailProgress = Num 0\<rparr>"
      and b = "\<lparr>minLat = Num 51, maxLat = Num 52, minLon = Num (-1), maxLon = Num 1\<rparr>" and w = "\<lparr>innerWidth = Num 800, innerHeight = Num 480\<rparr>" and rnd = "\<lambda>k. 7/10" and now = "\<lambda>i. Num 5000"
      and response = "Planes []"]
    removal_only_on_completion [where a = "\<lparr>planes = [(''4ca7b3'',
         \<lparr>plane_id = ''4ca7b3'', callsign = ''RYR22'', country = ''Ireland'',
         heading = Num 0, color = ''#ff6b6b'', startLat = Num (103/2), startLon = Num 0,
         endLat = Num 52, endLon = Num 0, curveControl = None, startTime = Num 1000,
         duration = Num 10000, lat = Num (103/2), lon = Num 0, screenPos = (Num 400, Num 240),
         startScreenPos = (Num 400, Num 240), progress = Num 0, trailPoints = [(Num 400, Num 240)],
         lastTrailProgress = Num 0\<rparr>)],
       isConnected = True, overlayText = [], overlayVisible = False,
       planeElements = [''4ca7b3''], countText = 1, trailsCanvas = [],
       lastAnimateTime = Num 0, randomCalls = 0\<rparr>"
      and currentTime = "Num 20" and k = "''4ca7b3''"
      and b = "\<lparr>minLat = Num 51, maxLat = Num 52, minLon = Num (-1), maxLon = Num 1\<rparr>" and w = "\<lparr>innerWidth = Num 800, innerHeight = Num 480\<rparr>"]
  by (simp add: Map_get_def FRAME_INTERVAL_def TARGET_FPS_def progress_advance Math_min_Num)

section \<open>Control points\<close>

text \<open>For finite arguments the control point of a curved path is finite: the
  trajectories built from finite samples have finite coordinates throughout.\<close>

lemma generateCurveControl_finite:
  "fst (generateCurveControl rnd k (Num sLat) (Num sLon) (Num eLat) (Num eLon) (Num h)) = None
   \<or> (\<exists>cLat cLon.
        fst (generateCurveControl rnd k (Num sLat) (Num sLon) (Num eLat) (Num eLon) (Num h))
          = Some (Num cLat, Num cLon))"
proof -
  have "\<not> (eLat - sLat) * (eLat - sLat) + (eLon - sLon) * (eLon - sLon) < 0"
    by (simp add: not_less)
  then show ?thesis
    by (simp add: generateCurveControl_def Let_def Math_pow2_def Math_PI_def)
qed

section \<open>A sample in a snapshot\<close>

lemma processPlanes_append:
  "processPlanes b w rnd now i (xs @ ys) a =
     (case processPlanes b w rnd now i xs a of
        (True, a') \<Rightarrow> processPlanes b w rnd now (i + length xs) ys a'
      | (False, a') \<Rightarrow> (False, a'))"
proof (induction xs arbitrary: a i)
  case Nil
  then show ?case by simp
next
  case (Cons x xs)
  have idx: "i + 1 + length xs = i + length (x # xs)" by simp
  show ?case
  proof (cases "Map_get (planes a) (data_id x)")
    case None
    show ?thesis
    proof (cases "position x")
      case no_pos: None
      then show ?thesis using None by simp
    next
      case (Some pos)
      obtain sLat sLon where pos: "pos = (sLat, sLon)" by (cases pos)
      show ?thesis
        using None Some pos Cons.IH [of "i + 1"] by (simp only: append_Cons processPlanes.simps
            option.case prod.case idx)
    qed
  next
    case (Some state)
    show ?thesis
      using Some Cons.IH [of "i + 1"] by (simp only: append_Cons processPlanes.simps
          option.case idx)
  qed
qed

lemma tracked_newPlane:
  "(Map_get (planes (newPlane b w rnd now pd sLat sLon a)) k \<noteq> None)
     = (Map_get (planes a) k \<noteq> None \<or> k = data_id pd)"
  by (simp add: newPlane_def Let_def Map_get_Map_set split: prod.split)

text \<open>When every sample of a list has a position, or a tracked id, or the id of a sample
  before it, the loop runs through the list, and the ids tracked after it are those
  tracked before and those of the list.\<close>

lemma processPlanes_runs:
  assumes "\<forall>xs q ys. ps = xs @ q # ys \<longrightarrow>
             position q \<noteq> None \<or> Map_get (planes a) (data_id q) \<noteq> None
             \<or> data_id q \<in> data_id ` set xs"
  shows "fst (processPlanes b w rnd now i ps a)
       \<and> (\<forall>k. (Map_get (planes (snd (processPlanes b w rnd now i ps a))) k \<noteq> None)
              = (Map_get (planes a) k \<noteq> None \<or> k \<in> data_id ` set ps))"
  using assms
proof (induction ps arbitrary: a i)
  case Nil
  then show ?case by simp
next
  case (Cons p ps)
  have first: "position p \<noteq> None \<or> Map_get (planes a) (data_id p) \<noteq> None"
    using Cons.prems [rule_format, of "[]" p ps] by simp
  have later: "position q \<noteq> None \<or> Map_get (planes a) (data_id q) \<noteq> None
      \<or> data_id q = data_id p \<or> data_id q \<in> data_id ` set xs" if "ps = xs @ q # ys" for xs q ys
    using Cons.prems [rule_format, of "p # xs" q ys] that by simp
  show ?case
  proof (cases "Map_get (planes a) (data_id p)")
    case None
    then obtain sLat sLon where pos: "position p = Some (sLat, sLon)"
      using first by (cases "position p") auto
    define a1 where "a1 = newPlane b w rnd (now i) p sLat sLon a"
    have tr: "(Map_get (planes a1) k \<noteq> None) = (Map_get (planes a) k \<noteq> None \<or> k = data_id p)" for k
      unfolding a1_def by (rule tracked_newPlane)
    have step: "processPlanes b w rnd now i (p # ps) a = processPlanes b w rnd now (i + 1) ps a1"
      using None pos by (simp add: a1_def)
    have "\<forall>xs q ys. ps = xs @ q # ys \<longrightarrow>
             position q \<noteq> None \<or> Map_get (planes a1) (data_id q) \<noteq> None
             \<or> data_id q \<in> data_id ` set xs"
      using later tr by blast
    from Cons.IH [OF this, of "i + 1"] show ?thesis
      unfolding step using tr by auto
  next
    case (Some state)
    define a1 where "a1 = a\<lparr>planes := Map_set (planes a) (data_id p)
        (state\<lparr>callsign := data_callsign p, country := data_country p\<rparr>)\<rparr>"
    have tr: "(Map_get (planes a1) k \<noteq> None) = (Map_get (planes a) k \<noteq> None \<or> k = data_id p)" for k
      using Some by (auto simp: a1_def Map_get_Map_set)
    have step: "processPlanes b w rnd now i (p # ps) a = processPlanes b w rnd now (i + 1) ps a1"
      using Some by (simp add: a1_def)
    have "\<forall>xs q ys. ps = xs @ q # ys \<longrightarrow>
             position q \<noteq> None \<or> Map_get (planes a1) (data_id q) \<noteq> None
             \<or> data_id q \<in> data_id ` set xs"
      using later tr by blast
    from Cons.IH [OF this, of "i + 1"] show ?thesis
      unfolding step using tr by auto
  qed
qed

text \<open>A sample with a position and a new id, which the loop reaches: after
  \<open>fetchFlightData\<close> its id is tracked with the state \<open>newPlane\<close> built for it, up to
  \<open>callsign\<close> and \<open>country\<close> (later samples of the id may overwrite them).\<close>

lemma fetch_plans_sample:
  assumes new: "Map_get (planes a) (data_id pd) = None" "data_id pd \<notin> data_id ` set pre"
    and pos: "position pd = Some (sLat, sLon)"
    and reach: "\<forall>xs q ys. pre = xs @ q # ys \<longrightarrow>
             position q \<noteq> None \<or> Map_get (planes a) (data_id q) \<noteq> None
             \<or> data_id q \<in> data_id ` set xs"
  shows "\<exists>a1 st cs co.
           Map_get (planes (newPlane b w rnd (now (length pre)) pd sLat sLon a1)) (data_id pd)
             = Some st
         \<and> Map_get (planes (fetchFlightData b w rnd now (Planes (pre @ pd # post)) a)) (data_id pd)
             = Some (st\<lparr>callsign := cs, country := co\<rparr>)"
proof -
  define a0 where "a0 = (if \<not> isConnected a then (hideOverlay a)\<lparr>isConnected := True\<rparr> else a)"
  have pl: "planes a0 = planes a" by (simp add: a0_def hideOverlay_def)
  define a1 where "a1 = snd (processPlanes b w rnd now 0 pre a0)"
  have run: "fst (processPlanes b w rnd now 0 pre a0)"
    and tr: "\<And>k. (Map_get (planes a1) k \<noteq> None)
              = (Map_get (planes a0) k \<noteq> None \<or> k \<in> data_id ` set pre)"
    using processPlanes_runs [of pre a0 b w rnd now 0] reach unfolding pl a1_def by blast+
  have r1: "processPlanes b w rnd now 0 pre a0 = (True, a1)"
    using run unfolding a1_def by (cases "processPlanes b w rnd now 0 pre a0") simp
  have untracked: "Map_get (planes a1) (data_id pd) = None"
    using tr [of "data_id pd"] new unfolding pl by simp
  define a2 where "a2 = newPlane b w rnd (now (length pre)) pd sLat sLon a1"
  obtain st where st: "Map_get (planes a2) (data_id pd) = Some st"
    unfolding a2_def using newPlane_tracked by blast
  have "processPlanes b w rnd now 0 (pre @ pd # post) a0
          = processPlanes b w rnd now (length pre + 1) post a2"
    unfolding processPlanes_append r1 using untracked pos by (simp add: a2_def)
  then have "planes (fetchFlightData b w rnd now (Planes (pre @ pd # post)) a)
          = planes (snd (processPlanes b w rnd now (length pre + 1) post a2))"
    unfolding planes_fetchFlightData a0_def by simp
  moreover obtain cs co where
    "Map_get (planes (snd (processPlanes b w rnd now (length pre + 1) post a2))) (data_id pd)
       = Some (st\<lparr>callsign := cs, country := co\<rparr>)"
    using processPlanes_keeps [OF st] by blast
  ultimately show ?thesis
    using st unfolding a2_def by metis
qed

lemma newPlane_state:
  assumes "Map_get (planes (newPlane b w rnd now pd sLat sLon a)) (data_id pd) = Some st"
  shows "startLat st = sLat \<and> startLon st = sLon
       \<and> endLat st = exitLat (calculateExitPoint b sLat sLon (data_heading pd))
       \<and> endLon st = exitLon (calculateExitPoint b sLat sLon (data_heading pd))
       \<and> startTime st = now
       \<and> curveControl st = fst (generateCurveControl rnd (randomCalls a) sLat sLon
            (exitLat (calculateExitPoint b sLat sLon (data_heading pd)))
            (exitLon (calculateExitPoint b sLat sLon (data_heading pd))) (data_heading pd))"
  using assms by (auto simp: newPlane_def Let_def Map_get_Map_set split: prod.splits)

section \<open>Duration of a stalled plane\<close>

text \<open>
  C6. Take any snapshot and in it a sample that the loop of \<open>fetchFlightData\<close> reaches
  (every sample before it has a position, or an id that is tracked, or the id of a sample
  before it) and plans a trajectory for (its id is not tracked and no sample before it
  has it). If its \<open>velocity_mps\<close> is missing or zero, its heading finite and its position
  strictly inside the region (finite bounds, latitudes within \<open>[-90, 90]\<close>), then after
  \<open>fetchFlightData\<close> the id is tracked with a duration that is the distance to the exit
  point divided by the default speed 200 (and by the speed multiplier 3, in
  milliseconds), and this duration is a finite positive number.
\<close>

theorem stalled_duration:
  assumes "la0 < sLat" and "sLat < la1" and "lo0 < sLon" and "sLon < lo1"
    and "- 90 \<le> la0" and "la1 \<le> 90"
    and "velocity_mps pd = None \<or> velocity_mps pd = Some (Num 0)"
    and "data_heading pd = Num h"
    and "position pd = Some (Num sLat, Num sLon)"
    and "Map_get (planes a) (data_id pd) = None"
    and "data_id pd \<notin> data_id ` set pre"
    and "\<forall>xs q ys. pre = xs @ q # ys \<longrightarrow>
           position q \<noteq> None \<or> Map_get (planes a) (data_id q) \<noteq> None
           \<or> data_id q \<in> data_id ` set xs"
  defines "b \<equiv> \<lparr>minLat = Num la0, maxLat = Num la1, minLon = Num lo0, maxLon = Num lo1\<rparr>"
  shows "\<exists>st d. Map_get (planes (fetchFlightData b w rnd now (Planes (pre @ pd # post)) a))
                  (data_id pd) = Some st
          \<and> duration st
              = distanceMeters (calculateExitPoint b (Num sLat) (Num sLon) (Num h))
                  / Num 200 / Num 3 * Num 1000
          \<and> duration st = Num d \<and> 0 < d"
proof -
  obtain a1 st cs co where
    st: "Map_get (planes (newPlane b w rnd (now (length pre)) pd (Num sLat) (Num sLon) a1))
           (data_id pd) = Some st"
    and got: "Map_get (planes (fetchFlightData b w rnd now (Planes (pre @ pd # post)) a))
           (data_id pd) = Some (st\<lparr>callsign := cs, country := co\<rparr>)"
    using fetch_plans_sample [OF assms(10,11,9,12)] by blast
  have v: "orDefault (velocity_mps pd) (Num 200) = Num 200"
    using assms(7) by auto
  have dur: "duration st = distanceMeters (calculateExitPoint b (Num sLat) (Num sLon) (Num h))
                  / Num 200 / Num 3 * Num 1000"
    using duration_newPlane [OF st] by (simp add: v assms(8))
  have "- 90 < sLat" "sLat < 90"
    using assms(1,2,5,6) by simp_all
  from distance_positive [OF assms(1-4) this]
  obtain dist where dist:
    "distanceMeters (calculateExitPoint b (Num sLat) (Num sLon) (Num h)) = Num dist" "0 < dist"
    unfolding b_def by blast
  have "duration st = Num (dist / 200 / 3 * 1000)" "0 < dist / 200 / 3 * 1000"
    using dist by (simp_all add: dur)
  then have "duration (st\<lparr>callsign := cs, country := co\<rparr>)
               = distanceMeters (calculateExitPoint b (Num sLat) (Num sLon) (Num h))
                   / Num 200 / Num 3 * Num 1000
           \<and> duration (st\<lparr>callsign := cs, country := co\<rparr>) = Num (dist / 200 / 3 * 1000)
           \<and> 0 < dist / 200 / 3 * 1000"
    using dur by simp
  then show ?thesis using got by blast
qed

theorem stalled_duration_witness:
  "(51::real) < 103/2 \<and> (103/2::real) < 52 \<and> (-1::real) < 0 \<and> (0::real) < 1
   \<and> (- 90::real) \<le> 51 \<and> (52::real) \<le> 90
   \<and> velocity_mps
        \<lparr>data_id = ''4ca7b3'', data_callsign = ''RYR22'', data_country = ''Ireland'',
        position = Some (Num (103/2), Num 0), data_heading = Num 0,
        velocity_mps = Some (Num 0), data_color = ''#ff6b6b''\<rparr> = Some (Num 0)
   \<and> Map_get (planes
        \<lparr>planes = [], isConnected = True, overlayText = [], overlayVisible = False,
        planeElements = [], countText = 0, trailsCanvas = [],
        lastAnimateTime = Num 0, randomCalls = 0\<rparr>) ''4ca7b3'' = None
   \<and> ''4ca7b3'' \<notin> data_id ` set [\<lparr>data_id = ''406b2c'', data_callsign = ''BAW9'', data_country = ''United Kingdom'',
        position = Some (Num (257/5), Num (1/2)), data_heading = Num 90,
        velocity_mps = Some (Num 230), data_color = ''#4ecdc4''\<rparr>]
   \<and> position
        \<lparr>data_id = ''406b2c'', data_callsign = ''BAW9'', data_country = ''United Kingdom'',
        position = Some (Num (257/5), Num (1/2)), data_heading = Num 90,
        velocity_mps = Some (Num 230), data_color = ''#4ecdc4''\<rparr> \<noteq> None
   \<and> (\<exists>st d.
        Map_get (planes (fetchFlightData \<lparr>minLat = Num 51, maxLat = Num 52, minLon = Num (-1), maxLon = Num 1\<rparr> \<lparr>innerWidth = Num 800, innerHeight = Num 480\<rparr> (\<lambda>k. 7/10) (\<lambda>i. Num 1000)
          (Planes ([\<lparr>data_id = ''406b2c'', data_callsign = ''BAW9'', data_country = ''United Kingdom'',
        position = Some (Num (257/5), Num (1/2)), data_heading = Num 90,
        velocity_mps = Some (Num 230), data_color = ''#4ecdc4''\<rparr>]
            @ \<lparr>data_id = ''4ca7b3'', data_callsign = ''RYR22'', data_country = ''Ireland'',
        position = Some (Num (103/2), Num 0), data_heading = Num 0,
        velocity_mps = Some (Num 0), data_color = ''#ff6b6b''\<rparr>
            # [\<lparr>data_id = ''406b2c'', data_callsign = ''BAW9'', data_country = ''United Kingdom'',
        position = Some (Num (257/5), Num (1/2)), data_heading = Num 90,
        velocity_mps = Some (Num 230), data_color = ''#4ecdc4''\<rparr>]))
          \<lparr>planes = [], isConnected = True, overlayText = [], overlayVisible = False,
        planeElements = [], countText = 0, trailsCanvas = [],
        lastAnimateTime = Num 0, randomCalls = 0\<rparr>)) ''4ca7b3'' = Some st
      \<and> duration st
          = distanceMeters (calculateExitPoint \<lparr>minLat = Num 51, maxLat = Num 52, minLon = Num (-1), maxLon = Num 1\<rparr>
              (Num (103/2)) (Num 0) (Num 0)) / Num 200 / Num 3 * Num 1000
      \<and> duration st = Num d \<and> 0 < d)"
  using stalled_duration [where ?la0.0 = 51 and sLat = "103/2" and ?la1.0 = 52
      and ?lo0.0 = "-1" and sLon = 0 and ?lo1.0 = 1
      and pd = "\<lparr>data_id = ''4ca7b3'', data_callsign = ''RYR22'', data_country = ''Ireland'',
        position = Some (Num (103/2), Num 0), data_heading = Num 0,
        velocity_mps = Some (Num 0), data_color = ''#ff6b6b''\<rparr>" and h = 0
      and a = "\<lparr>planes = [], isConnected = True, overlayText = [], overlayVisible = False,
        planeElements = [], countText = 0, trailsCanvas = [],
        lastAnimateTime = Num 0, randomCalls = 0\<rparr>"
      and pre = "[\<lparr>data_id = ''406b2c'', data_callsign = ''BAW9'', data_country = ''United Kingdom'',
        position = Some (Num (257/5), Num (1/2)), data_heading = Num 90,
        velocity_mps = Some (Num 230), data_color = ''#4ecdc4''\<rparr>]"
      and post = "[\<lparr>data_id = ''406b2c'', data_callsign = ''BAW9'', data_country = ''United Kingdom'',
        position = Some (Num (257/5), Num (1/2)), data_heading = Num 90,
        velocity_mps = Some (Num 230), data_color = ''#4ecdc4''\<rparr>]"
      and w = "\<lparr>innerWidth = Num 800, innerHeight = Num 480\<rparr>" and rnd = "\<lambda>k. 7/10" and now = "\<lambda>i. Num 1000"]
  by (simp add: Map_get_def Cons_eq_append_conv)

section \<open>Endpoints of a journey\<close>

lemma exit_inside_finite:
  assumes "la0 < sLat" and "sLat < la1" and "lo0 < sLon" and "sLon < lo1"
  shows "\<exists>eLat eLon.
      exitLat (calculateExitPoint
        \<lparr>minLat = Num la0, maxLat = Num la1, minLon = Num lo0, maxLon = Num lo1\<rparr>
        (Num sLat) (Num sLon) (Num h)) = Num eLat
    \<and> exitLon (calculateExitPoint
        \<lparr>minLat = Num la0, maxLat = Num la1, minLon = Num lo0, maxLon = Num lo1\<rparr>
        (Num sLat) (Num sLon) (Num h)) = Num eLon"
proof -
  from findMinT_inside [OF assms cos_sin_not_both_zero [of "h * pi / 180"]]
  obtain m where "findMinT
      \<lparr>minLat = Num la0, maxLat = Num la1, minLon = Num lo0, maxLon = Num lo1\<rparr>
      (Num sLat) (Num sLon) (Num (cos (h * pi / 180))) (Num (sin (h * pi / 180))) = Num m"
    by blast
  then show ?thesis
    by (simp add: exitLat_calc exitLon_calc headingRad_Num)
qed

text \<open>
  C10, as stated for every trajectory, fails. From a sample north of the region and
  heading north, \<open>fetchFlightData\<close> builds a journey with exit point
  \<open>(Infinity, NaN)\<close> and duration \<open>NaN\<close>; at the frame of its start time the
  interpolated latitude is \<open>NaN\<close>, not the start latitude 11.
\<close>

theorem journey_endpoints_counterexample:
  "Map_get (planes (fetchFlightData \<lparr>minLat = Num 0, maxLat = Num 10, minLon = Num 0, maxLon = Num 10\<rparr> \<lparr>innerWidth = Num 800, innerHeight = Num 480\<rparr> (\<lambda>k. 7/10) (\<lambda>i. Num 1000)
        (Planes [\<lparr>data_id = ''4ca7b3'', data_callsign = ''RYR22'', data_country = ''Ireland'',
        position = Some (Num 11, Num 5), data_heading = Num 0,
        velocity_mps = Some (Num 250), data_color = ''#ff6b6b''\<rparr>])
        \<lparr>planes = [], isConnected = True, overlayText = [], overlayVisible = False,
        planeElements = [], countText = 0, trailsCanvas = [],
        lastAnimateTime = Num 0, randomCalls = 0\<rparr>)) ''4ca7b3''
     = Some \<lparr>plane_id = ''4ca7b3'', callsign = ''RYR22'', country = ''Ireland'',
        heading = Num 0, color = ''#ff6b6b'', startLat = Num 11, startLon = Num 5,
        endLat = PosInf, endLon = NaN, curveControl = None, startTime = Num 1000,
        duration = NaN, lat = Num 11, lon = Num 5, screenPos = (Num 400, Num (-48)),
        startScreenPos = (Num 400, Num (-48)), progress = Num 0,
        trailPoints = [(Num 400, Num (-48))], lastTrailProgress = Num 0\<rparr>
   \<and> lat (advance \<lparr>minLat = Num 0, maxLat = Num 10, minLon = Num 0, maxLon = Num 10\<rparr> \<lparr>innerWidth = Num 800, innerHeight = Num 480\<rparr> (Num 1000)
        \<lparr>plane_id = ''4ca7b3'', callsign = ''RYR22'', country = ''Ireland'',
        heading = Num 0, color = ''#ff6b6b'', startLat = Num 11, startLon = Num 5,
        endLat = PosInf, endLon = NaN, curveControl = None, startTime = Num 1000,
        duration = NaN, lat = Num 11, lon = Num 5, screenPos = (Num 400, Num (-48)),
        startScreenPos = (Num 400, Num (-48)), progress = Num 0,
        trailPoints = [(Num 400, Num (-48))], lastTrailProgress = Num 0\<rparr>) = NaN
   \<and> startLat
        \<lparr>plane_id = ''4ca7b3'', callsign = ''RYR22'', country = ''Ireland'',
        heading = Num 0, color = ''#ff6b6b'', startLat = Num 11, startLon = Num 5,
        endLat = PosInf, endLon = NaN, curveControl = None, startTime = Num 1000,
        duration = NaN, lat = Num 11, lon = Num 5, screenPos = (Num 400, Num (-48)),
        startScreenPos = (Num 400, Num (-48)), progress = Num 0,
        trailPoints = [(Num 400, Num (-48))], lastTrailProgress = Num 0\<rparr> = Num 11"
proof -
  have "calculateExitPoint \<lparr>minLat = Num 0, maxLat = Num 10, minLon = Num 0, maxLon = Num 10\<rparr> (Num 11) (Num 5) (Num 0)
          = \<lparr>exitLat = PosInf, exitLon = NaN, distanceMeters = NaN\<rparr>"
    by (simp add: calculateExitPoint_def findMinT_def closer_def Math_PI_def Math_pow2_def
        jsnum_ops)
  then have "Map_get (planes (fetchFlightData \<lparr>minLat = Num 0, maxLat = Num 10, minLon = Num 0, maxLon = Num 10\<rparr> \<lparr>innerWidth = Num 800, innerHeight = Num 480\<rparr> (\<lambda>k. 7/10) (\<lambda>i. Num 1000)
        (Planes [\<lparr>data_id = ''4ca7b3'', data_callsign = ''RYR22'', data_country = ''Ireland'',
        position = Some (Num 11, Num 5), data_heading = Num 0,
        velocity_mps = Some (Num 250), data_color = ''#ff6b6b''\<rparr>])
        \<lparr>planes = [], isConnected = True, overlayText = [], overlayVisible = False,
        planeElements = [], countText = 0, trailsCanvas = [],
        lastAnimateTime = Num 0, randomCalls = 0\<rparr>)) ''4ca7b3''
     = Some \<lparr>plane_id = ''4ca7b3'', callsign = ''RYR22'', country = ''Ireland'',
        heading = Num 0, color = ''#ff6b6b'', startLat = Num 11, startLon = Num 5,
        endLat = PosInf, endLon = NaN, curveControl = None, startTime = Num 1000,
        duration = NaN, lat = Num 11, lon = Num 5, screenPos = (Num 400, Num (-48)),
        startScreenPos = (Num 400, Num (-48)), progress = Num 0,
        trailPoints = [(Num 400, Num (-48))], lastTrailProgress = Num 0\<rparr>"
    by (simp add: fetchFlightData_def Map_get_def newPlane_def generateCurveControl_def
        ENABLE_CURVES_def latLonToScreen_def Let_def jsnum_ops)
  moreover have "lat (advance \<lparr>minLat = Num 0, maxLat = Num 10, minLon = Num 0, maxLon = Num 10\<rparr> \<lparr>innerWidth = Num 800, innerHeight = Num 480\<rparr> (Num 1000)
        \<lparr>plane_id = ''4ca7b3'', callsign = ''RYR22'', country = ''Ireland'',
        heading = Num 0, color = ''#ff6b6b'', startLat = Num 11, startLon = Num 5,
        endLat = PosInf, endLon = NaN, curveControl = None, startTime = Num 1000,
        duration = NaN, lat = Num 11, lon = Num 5, screenPos = (Num 400, Num (-48)),
        startScreenPos = (Num 400, Num (-48)), progress = Num 0,
        trailPoints = [(Num 400, Num (-48))], lastTrailProgress = Num 0\<rparr>) = NaN"
    using position_advance [where b = "\<lparr>minLat = Num 0, maxLat = Num 10, minLon = Num 0, maxLon = Num 10\<rparr>"
        and w = "\<lparr>innerWidth = Num 800, innerHeight = Num 480\<rparr>" and t = "Num 1000"
        and st = "\<lparr>plane_id = ''4ca7b3'', callsign = ''RYR22'', country = ''Ireland'',
        heading = Num 0, color = ''#ff6b6b'', startLat = Num 11, startLon = Num 5,
        endLat = PosInf, endLon = NaN, curveControl = None, startTime = Num 1000,
        duration = NaN, lat = Num 11, lon = Num 5, screenPos = (Num 400, Num (-48)),
        startScreenPos = (Num 400, Num (-48)), progress = Num 0,
        trailPoints = [(Num 400, Num (-48))], lastTrailProgress = Num 0\<rparr>"]
    by (simp add: pathPoint_def linear_def jsnum_ops)
  ultimately show ?thesis by simp
qed


text \<open>
  C10, amended to trajectories with finite coordinates. The quadratic curve is \<open>p0\<close> at
  \<open>0\<close> and \<open>p2\<close> at \<open>1\<close> for every finite control point, and a state with finite
  start, exit, control point (if any), start time and positive duration is put by
  \<open>animate\<close> at its start point when no time has elapsed and at its exit point once
  the duration has elapsed. Every journey planned from a sample with a finite heading, a
  finite positive speed (or the default) and a position strictly inside the region
  (finite bounds, latitudes within \<open>[-90, 90]\<close>) is such a trajectory: its start point
  is the position of the sample, its exit point the one \<open>calculateExitPoint\<close> computes,
  and \<open>animate\<close> moves it from the one to the other. The sample may be anywhere in a
  snapshot, as long as the loop reaches it and its id is new.
\<close>

theorem journey_endpoints:
  assumes "la0 < sLat" and "sLat < la1" and "lo0 < sLon" and "sLon < lo1"
    and "- 90 \<le> la0" and "la1 \<le> 90"
    and "orDefault (velocity_mps pd) (Num 200) = Num v" and "0 < v"
    and "data_heading pd = Num h"
    and "position pd = Some (Num sLat, Num sLon)"
    and "now (length pre) = Num t0"
    and "Map_get (planes a) (data_id pd) = None"
    and "data_id pd \<notin> data_id ` set pre"
    and "\<forall>xs q ys. pre = xs @ q # ys \<longrightarrow>
           position q \<noteq> None \<or> Map_get (planes a) (data_id q) \<noteq> None
           \<or> data_id q \<in> data_id ` set xs"
  defines "b \<equiv> \<lparr>minLat = Num la0, maxLat = Num la1, minLon = Num lo0, maxLon = Num lo1\<rparr>"
  shows "quadraticBezier (Num 0) (Num p0) (Num p1) (Num p2) = Num p0
       \<and> quadraticBezier (Num 1) (Num p0) (Num p1) (Num p2) = Num p2
       \<and> ((curveControl s = None \<or> curveControl s = Some (Num cLat, Num cLon))
            \<and> startTime s = Num ts \<and> duration s = Num ds \<and> 0 < ds
            \<and> startLat s = Num xLat \<and> startLon s = Num xLon
            \<and> endLat s = Num yLat \<and> endLon s = Num yLon
          \<longrightarrow> lat (advance b w (Num ts) s) = startLat s
            \<and> lon (advance b w (Num ts) s) = startLon s
            \<and> (\<forall>t. ts + ds \<le> t \<longrightarrow> lat (advance b w (Num t) s) = endLat s
                                  \<and> lon (advance b w (Num t) s) = endLon s))
       \<and> (\<exists>st d.
            Map_get (planes (fetchFlightData b w rnd now (Planes (pre @ pd # post)) a))
              (data_id pd) = Some st
          \<and> startLat st = Num sLat \<and> startLon st = Num sLon
          \<and> endLat st = exitLat (calculateExitPoint b (Num sLat) (Num sLon) (Num h))
          \<and> endLon st = exitLon (calculateExitPoint b (Num sLat) (Num sLon) (Num h))
          \<and> startTime st = Num t0 \<and> duration st = Num d \<and> 0 < d
          \<and> lat (advance b w (Num t0) st) = Num sLat
          \<and> lon (advance b w (Num t0) st) = Num sLon
          \<and> (\<forall>t. t0 + d \<le> t \<longrightarrow>
                lat (advance b w (Num t) st)
                  = exitLat (calculateExitPoint b (Num sLat) (Num sLon) (Num h))
              \<and> lon (advance b w (Num t) st)
                  = exitLon (calculateExitPoint b (Num sLat) (Num sLon) (Num h))))"
proof (intro conjI impI)
  show "quadraticBezier (Num 0) (Num p0) (Num p1) (Num p2) = Num p0"
    by (simp add: quadraticBezier_Num)
  show "quadraticBezier (Num 1) (Num p0) (Num p1) (Num p2) = Num p2"
    by (simp add: quadraticBezier_Num)
next
  assume fin: "(curveControl s = None \<or> curveControl s = Some (Num cLat, Num cLon))
            \<and> startTime s = Num ts \<and> duration s = Num ds \<and> 0 < ds
            \<and> startLat s = Num xLat \<and> startLon s = Num xLon
            \<and> endLat s = Num yLat \<and> endLon s = Num yLon"
  then have ends: "lat (advance b w (Num ts) s) = startLat s
       \<and> lon (advance b w (Num ts) s) = startLon s
       \<and> (ts + ds \<le> t \<longrightarrow> lat (advance b w (Num t) s) = endLat s
                        \<and> lon (advance b w (Num t) s) = endLon s)" for t
    using advance_endpoints [of s cLat cLon ts ds xLat xLon yLat yLon 0 0 0 b w t] by blast
  show "lat (advance b w (Num ts) s) = startLat s" using ends by blast
  show "lon (advance b w (Num ts) s) = startLon s" using ends by blast
  show "\<forall>t. ts + ds \<le> t \<longrightarrow> lat (advance b w (Num t) s) = endLat s
                                  \<and> lon (advance b w (Num t) s) = endLon s"
    using ends by blast
next
  obtain a1 st0 cs co where
    st0: "Map_get (planes (newPlane b w rnd (now (length pre)) pd (Num sLat) (Num sLon) a1))
           (data_id pd) = Some st0"
    and got: "Map_get (planes (fetchFlightData b w rnd now (Planes (pre @ pd # post)) a))
           (data_id pd) = Some (st0\<lparr>callsign := cs, country := co\<rparr>)"
    using fetch_plans_sample [OF assms(12,13,10,14)] by blast
  define st where "st = st0\<lparr>callsign := cs, country := co\<rparr>"
  obtain eLat eLon where
    ex: "exitLat (calculateExitPoint b (Num sLat) (Num sLon) (Num h)) = Num eLat"
        "exitLon (calculateExitPoint b (Num sLat) (Num sLon) (Num h)) = Num eLon"
    using exit_inside_finite [OF assms(1-4)] unfolding b_def by blast
  have "- 90 < sLat" "sLat < 90"
    using assms(1,2,5,6) by simp_all
  from distance_positive [OF assms(1-4) this]
  obtain dist where dist:
    "distanceMeters (calculateExitPoint b (Num sLat) (Num sLon) (Num h)) = Num dist" "0 < dist"
    unfolding b_def by blast
  define d where "d = dist / v / 3 * 1000"
  have d: "0 < d" using dist(2) assms(8) by (simp add: d_def)
  have geo: "startLat st = Num sLat" "startLon st = Num sLon"
      "endLat st = Num eLat" "endLon st = Num eLon" "startTime st = Num t0"
    using newPlane_state [OF st0] by (simp_all add: st_def assms(9,11) ex)
  have dur: "duration st = Num d"
    using duration_newPlane [OF st0] assms(8) by (simp add: st_def assms(7,9) dist(1) d_def)
  have "curveControl st = fst (generateCurveControl rnd (randomCalls a1)
          (Num sLat) (Num sLon) (Num eLat) (Num eLon) (Num h))"
    using newPlane_state [OF st0] by (simp add: st_def assms(9) ex)
  then obtain cLat' cLon' where
    cc: "curveControl st = None \<or> curveControl st = Some (Num cLat', Num cLon')"
    using generateCurveControl_finite [of rnd "randomCalls a1" sLat sLon eLat eLon h] by auto
  have ends: "lat (advance b w (Num t0) st) = startLat st
       \<and> lon (advance b w (Num t0) st) = startLon st
       \<and> (t0 + d \<le> t \<longrightarrow> lat (advance b w (Num t) st) = endLat st
                        \<and> lon (advance b w (Num t) st) = endLon st)" for t
    using advance_endpoints [OF cc geo(5) dur d geo(1-4), of 0 0 0 b w t] by blast
  have "Map_get (planes (fetchFlightData b w rnd now (Planes (pre @ pd # post)) a))
              (data_id pd) = Some st
          \<and> startLat st = Num sLat \<and> startLon st = Num sLon
          \<and> endLat st = exitLat (calculateExitPoint b (Num sLat) (Num sLon) (Num h))
          \<and> endLon st = exitLon (calculateExitPoint b (Num sLat) (Num sLon) (Num h))
          \<and> startTime st = Num t0 \<and> duration st = Num d \<and> 0 < d
          \<and> lat (advance b w (Num t0) st) = Num sLat
          \<and> lon (advance b w (Num t0) st) = Num sLon
          \<and> (\<forall>t. t0 + d \<le> t \<longrightarrow>
                lat (advance b w (Num t) st)
                  = exitLat (calculateExitPoint b (Num sLat) (Num sLon) (Num h))
              \<and> lon (advance b w (Num t) st)
                  = exitLon (calculateExitPoint b (Num sLat) (Num sLon) (Num h)))"
    using got ends geo dur d unfolding ex st_def [symmetric] by simp
  then show "\<exists>st d.
            Map_get (planes (fetchFlightData b w rnd now (Planes (pre @ pd # post)) a))
              (data_id pd) = Some st
          \<and> startLat st = Num sLat \<and> startLon st = Num sLon
          \<and> endLat st = exitLat (calculateExitPoint b (Num sLat) (Num sLon) (Num h))
          \<and> endLon st = exitLon (calculateExitPoint b (Num sLat) (Num sLon) (Num h))
          \<and> startTime st = Num t0 \<and> duration st = Num d \<and> 0 < d
          \<and> lat (advance b w (Num t0) st) = Num sLat
          \<and> lon (advance b w (Num t0) st) = Num sLon
          \<and> (\<forall>t. t0 + d \<le> t \<longrightarrow>
                lat (advance b w (Num t) st)
                  = exitLat (calculateExitPoint b (Num sLat) (Num sLon) (Num h))
              \<and> lon (advance b w (Num t) st)
                  = exitLon (calculateExitPoint b (Num sLat) (Num sLon) (Num h)))"
    by blast
qed


theorem journey_endpoints_witness:
  "(51::real) < 103/2 \<and> (103/2::real) < 52 \<and> (-1::real) < 0 \<and> (0::real) < 1
   \<and> (- 90::real) \<le> 51 \<and> (52::real) \<le> 90 \<and> (0::real) < 250
   \<and> Map_get (planes
        \<lparr>planes = [], isConnected = True, overlayText = [], overlayVisible = False,
        planeElements = [], countText = 0, trailsCanvas = [],
        lastAnimateTime = Num 0, randomCalls = 0\<rparr>) ''4ca7b3'' = None
   \<and> ''4ca7b3'' \<notin> data_id ` set [\<lparr>data_id = ''406b2c'', data_callsign = ''BAW9'', data_country = ''United Kingdom'',
        position = Some (Num (257/5), Num (1/2)), data_heading = Num 90,
        velocity_mps = Some (Num 230), data_color = ''#4ecdc4''\<rparr>]
   \<and> position
        \<lparr>data_id = ''406b2c'', data_callsign = ''BAW9'', data_country = ''United Kingdom'',
        position = Some (Num (257/5), Num (1/2)), data_heading = Num 90,
        velocity_mps = Some (Num 230), data_color = ''#4ecdc4''\<rparr> \<noteq> None
   \<and> quadraticBezier (Num 0) (Num 3) (Num 7) (Num 5) = Num 3
   \<and> quadraticBezier (Num 1) (Num 3) (Num 7) (Num 5) = Num 5
   \<and> curveControl
        \<lparr>plane_id = ''4ca7b3'', callsign = ''RYR22'', country = ''Ireland'',
      heading = Num 0, color = ''#ff6b6b'', startLat = Num (103/2), startLon = Num 0,
      endLat = Num 52, endLon = Num 0, curveControl = Some (Num (207/4), Num (1/10)), startTime = Num 1000,
      duration = Num 10000, lat = Num (103/2), lon = Num 0, screenPos = (Num 400, Num 240),
      startScreenPos = (Num 400, Num 240), progress = Num 0, trailPoints = [(Num 400, Num 240)],
      lastTrailProgress = Num 0\<rparr> = Some (Num (207/4), Num (1/10))
   \<and> lat (advance \<lparr>minLat = Num 51, maxLat = Num 52, minLon = Num (-1), maxLon = Num 1\<rparr> \<lparr>innerWidth = Num 800, innerHeight = Num 480\<rparr> (Num 1000)
        \<lparr>plane_id = ''4ca7b3'', callsign = ''RYR22'', country = ''Ireland'',
      heading = Num 0, color = ''#ff6b6b'', startLat = Num (103/2), startLon = Num 0,
      endLat = Num 52, endLon = Num 0, curveControl = Some (Num (207/4), Num (1/10)), startTime = Num 1000,
      duration = Num 10000, lat = Num (103/2), lon = Num 0, screenPos = (Num 400, Num 240),
      startScreenPos = (Num 400, Num 240), progress = Num 0, trailPoints = [(Num 400, Num 240)],
      lastTrailProgress = Num 0\<rparr>) = Num (103/2)
   \<and> lon (advance \<lparr>minLat = Num 51, maxLat = Num 52, minLon = Num (-1), maxLon = Num 1\<rparr> \<lparr>innerWidth = Num 800, innerHeight = Num 480\<rparr> (Num 1000)
        \<lparr>plane_id = ''4ca7b3'', callsign = ''RYR22'', country = ''Ireland'',
      heading = Num 0, color = ''#ff6b6b'', startLat = Num (103/2), startLon = Num 0,
      endLat = Num 52, endLon = Num 0, curveControl = Some (Num (207/4), Num (1/10)), startTime = Num 1000,
      duration = Num 10000, lat = Num (103/2), lon = Num 0, screenPos = (Num 400, Num 240),
      startScreenPos = (Num 400, Num 240), progress = Num 0, trailPoints = [(Num 400, Num 240)],
      lastTrailProgress = Num 0\<rparr>) = Num 0
   \<and> lat (advance \<lparr>minLat = Num 51, maxLat = Num 52, minLon = Num (-1), maxLon = Num 1\<rparr> \<lparr>innerWidth = Num 800, innerHeight = Num 480\<rparr> (Num 12000)
        \<lparr>plane_id = ''4ca7b3'', callsign = ''RYR22'', country = ''Ireland'',
      heading = Num 0, color = ''#ff6b6b'', startLat = Num (103/2), startLon = Num 0,
      endLat = Num 52, endLon = Num 0, curveControl = Some (Num (207/4), Num (1/10)), startTime = Num 1000,
      duration = Num 10000, lat = Num (103/2), lon = Num 0, screenPos = (Num 400, Num 240),
      startScreenPos = (Num 400, Num 240), progress = Num 0, trailPoints = [(Num 400, Num 240)],
      lastTrailProgress = Num 0\<rparr>) = Num 52
   \<and> lon (advance \<lparr>minLat = Num 51, maxLat = Num 52, minLon = Num (-1), maxLon = Num 1\<rparr> \<lparr>innerWidth = Num 800, innerHeight = Num 480\<rparr> (Num 12000)
        \<lparr>plane_id = ''4ca7b3'', callsign = ''RYR22'', country = ''Ireland'',
      heading = Num 0, color = ''#ff6b6b'', startLat = Num (103/2), startLon = Num 0,
      endLat = Num 52, endLon = Num 0, curveControl = Some (Num (207/4), Num (1/10)), startTime = Num 1000,
      duration = Num 10000, lat = Num (103/2), lon = Num 0, screenPos = (Num 400, Num 240),
      startScreenPos = (Num 400, Num 240), progress = Num 0, trailPoints = [(Num 400, Num 240)],
      lastTrailProgress = Num 0\<rparr>) = Num 0
   \<and> (\<exists>st d.
        Map_get (planes (fetchFlightData \<lparr>minLat = Num 51, maxLat = Num 52, minLon = Num (-1), maxLon = Num 1\<rparr> \<lparr>innerWidth = Num 800, innerHeight = Num 480\<rparr> (\<lambda>k. 7/10) (\<lambda>i. Num 1000)
          (Planes ([\<lparr>data_id = ''406b2c'', data_callsign = ''BAW9'', data_country = ''United Kingdom'',
        position = Some (Num (257/5), Num (1/2)), data_heading = Num 90,
        velocity_mps = Some (Num 230), data_color = ''#4ecdc4''\<rparr>]
            @ \<lparr>data_id = ''4ca7b3'', data_callsign = ''RYR22'', data_country = ''Ireland'',
        position = Some (Num (103/2), Num 0), data_heading = Num 0,
        velocity_mps = Some (Num 250), data_color = ''#ff6b6b''\<rparr>
            # []))
          \<lparr>planes = [], isConnected = True, overlayText = [], overlayVisible = False,
        planeElements = [], countText = 0, trailsCanvas = [],
        lastAnimateTime = Num 0, randomCalls = 0\<rparr>)) ''4ca7b3'' = Some st
      \<and> startLat st = Num (103/2) \<and> startLon st = Num 0
      \<and> endLat st = Num 52 \<and> endLon st = Num 0
      \<and> startTime st = Num 1000 \<and> duration st = Num d \<and> 0 < d
      \<and> lat (advance \<lparr>minLat = Num 51, maxLat = Num 52, minLon = Num (-1), maxLon = Num 1\<rparr> \<lparr>innerWidth = Num 800, innerHeight = Num 480\<rparr> (Num 1000) st) = Num (103/2)
      \<and> lon (advance \<lparr>minLat = Num 51, maxLat = Num 52, minLon = Num (-1), maxLon = Num 1\<rparr> \<lparr>innerWidth = Num 800, innerHeight = Num 480\<rparr> (Num 1000) st) = Num 0
      \<and> (\<forall>t. 1000 + d \<le> t \<longrightarrow>
            lat (advance \<lparr>minLat = Num 51, maxLat = Num 52, minLon = Num (-1), maxLon = Num 1\<rparr> \<lparr>innerWidth = Num 800, innerHeight = Num 480\<rparr> (Num t) st) = Num 52
          \<and> lon (advance \<lparr>minLat = Num 51, maxLat = Num 52, minLon = Num (-1), maxLon = Num 1\<rparr> \<lparr>innerWidth = Num 800, innerHeight = Num 480\<rparr> (Num t) st) = Num 0))"
proof -
  have ex: "exitLat (calculateExitPoint \<lparr>minLat = Num 51, maxLat = Num 52, minLon = Num (-1), maxLon = Num 1\<rparr> (Num (103/2)) (Num 0) (Num 0)) = Num 52"
    "exitLon (calculateExitPoint \<lparr>minLat = Num 51, maxLat = Num 52, minLon = Num (-1), maxLon = Num 1\<rparr> (Num (103/2)) (Num 0) (Num 0)) = Num 0"
    by (simp_all add: exitLat_calc exitLon_calc findMinT_def closer_def Math_PI_def)
  have inst: "(12000::real) \<ge> 1000 + 10000" by simp
  show ?thesis
    using journey_endpoints [where ?la0.0 = 51 and sLat = "103/2" and ?la1.0 = 52
      and ?lo0.0 = "-1" and sLon = 0 and ?lo1.0 = 1
      and pd = "\<lparr>data_id = ''4ca7b3'', data_callsign = ''RYR22'', data_country = ''Ireland'',
        position = Some (Num (103/2), Num 0), data_heading = Num 0,
        velocity_mps = Some (Num 250), data_color = ''#ff6b6b''\<rparr>" and h = 0 and v = 250 and ?t0.0 = 1000
      and a = "\<lparr>planes = [], isConnected = True, overlayText = [], overlayVisible = False,
        planeElements = [], countText = 0, trailsCanvas = [],
        lastAnimateTime = Num 0, randomCalls = 0\<rparr>"
      and pre = "[\<lparr>data_id = ''406b2c'', data_callsign = ''BAW9'', data_country = ''United Kingdom'',
        position = Some (Num (257/5), Num (1/2)), data_heading = Num 90,
        velocity_mps = Some (Num 230), data_color = ''#4ecdc4''\<rparr>]"
      and post = "[]"
      and w = "\<lparr>innerWidth = Num 800, innerHeight = Num 480\<rparr>" and rnd = "\<lambda>k. 7/10" and now = "\<lambda>i. Num 1000"
      and ?p0.0 = 3 and ?p1.0 = 7 and ?p2.0 = 5
      and s = "\<lparr>plane_id = ''4ca7b3'', callsign = ''RYR22'', country = ''Ireland'',
      heading = Num 0, color = ''#ff6b6b'', startLat = Num (103/2), startLon = Num 0,
      endLat = Num 52, endLon = Num 0, curveControl = Some (Num (207/4), Num (1/10)), startTime = Num 1000,
      duration = Num 10000, lat = Num (103/2), lon = Num 0, screenPos = (Num 400, Num 240),
      startScreenPos = (Num 400, Num 240), progress = Num 0, trailPoints = [(Num 400, Num 240)],
      lastTrailProgress = Num 0\<rparr>"
      and cLat = "207/4" and cLon = "1/10" and ts = 1000 and ds = 10000
      and xLat = "103/2" and xLon = 0 and yLat = 52 and yLon = 0]
      inst
    unfolding ex
    by (simp add: Map_get_def Cons_eq_append_conv)
qed

section \<open>The stroke of a trail\<close>










end
